theory Spec2Isabelle
  imports Main "HOL-Library.Word"
begin

section \<open>Errors and outcomes shared by the reflector and the storage layer\<close>

text \<open>
  A Go \<^verbatim>\<open>error\<close> is a value; \<^verbatim>\<open>nil\<close> is \<open>None\<close> of \<open>go_error option\<close>.
  The API status errors of apimachinery carry a reason, an HTTP code and the causes of
  their details (\<open>None\<close> when \<^verbatim>\<open>Details\<close> is nil). \<open>Wrapped\<close> is the result of
  \<^verbatim>\<open>fmt.Errorf("...: %w", err)\<close>. A reason is the unknown reason (the empty string),
  one of the reasons apimachinery declares (five of them by name,
  \<open>StatusReasonDeclared\<close> for any other, such as \<^verbatim>\<open>NotFound\<close>), or a string it does
  not declare.
\<close>

datatype StatusReason =
    StatusReasonUnknown
  | StatusReasonExpired
  | StatusReasonGone
  | StatusReasonTimeout
  | StatusReasonTooManyRequests
  | StatusReasonInternalError
  | StatusReasonDeclared string
  | StatusReasonUndeclared string

record StatusCause =
  cause_Type :: string
  cause_Message :: string

datatype go_error =
    StatusError StatusReason int "StatusCause list option"
  | ErrorString string
  | Wrapped string go_error

text \<open>
  A call either returns or panics. A panic is not an error value handed to the caller:
  it unwinds the stack with its message.
\<close>

datatype 'a outcome = Returned 'a | Panicked string

subsection \<open>The apimachinery error predicates used by the reflector\<close>

text \<open>\<^verbatim>\<open>errors.As(err, &status)\<close>: the first API status in the chain of wrapped errors.\<close>

fun APIStatus_of :: "go_error \<Rightarrow> (StatusReason \<times> int \<times> StatusCause list option) option" where
  "APIStatus_of (StatusError r c d) = Some (r, c, d)"
| "APIStatus_of (ErrorString s) = None"
| "APIStatus_of (Wrapped s e) = APIStatus_of e"

definition reasonAndCodeForError :: "go_error option \<Rightarrow> StatusReason \<times> int" where
  "reasonAndCodeForError err =
     (case err of
        None \<Rightarrow> (StatusReasonUnknown, 0)
      | Some e \<Rightarrow> (case APIStatus_of e of
                    None \<Rightarrow> (StatusReasonUnknown, 0)
                  | Some (r, c, d) \<Rightarrow> (r, c)))"

definition IsResourceExpired :: "go_error option \<Rightarrow> bool" where
  "IsResourceExpired err = (fst (reasonAndCodeForError err) = StatusReasonExpired)"

text \<open>
  \<^verbatim>\<open>knownReasons\<close>: the reasons apimachinery declares. \<^verbatim>\<open>IsGone\<close> and \<^verbatim>\<open>IsTimeout\<close>
  consult the HTTP code of an error only when its reason is not one of them.
\<close>

fun knownReasons :: "StatusReason \<Rightarrow> bool" where
  "knownReasons StatusReasonUnknown = False"
| "knownReasons (StatusReasonUndeclared s) = False"
| "knownReasons r = True"

definition IsGone :: "go_error option \<Rightarrow> bool" where
  "IsGone err =
     (if fst (reasonAndCodeForError err) = StatusReasonGone then True
      else if \<not> knownReasons (fst (reasonAndCodeForError err)) \<and>
              snd (reasonAndCodeForError err) = 410 then True
      else False)"

definition IsTimeout :: "go_error option \<Rightarrow> bool" where
  "IsTimeout err =
     (if fst (reasonAndCodeForError err) = StatusReasonTimeout then True
      else if \<not> knownReasons (fst (reasonAndCodeForError err)) \<and>
              snd (reasonAndCodeForError err) = 504 then True
      else False)"

fun any_cause :: "(StatusCause \<Rightarrow> bool) \<Rightarrow> StatusCause list \<Rightarrow> bool" where
  "any_cause p [] = False"
| "any_cause p (c # cs) = (if p c then True else any_cause p cs)"

definition CauseTypeResourceVersionTooLarge :: string where
  "CauseTypeResourceVersionTooLarge = ''ResourceVersionTooLarge''"

definition HasStatusCause :: "go_error option \<Rightarrow> string \<Rightarrow> bool" where
  "HasStatusCause err name =
     (case err of
        None \<Rightarrow> False
      | Some e \<Rightarrow> (case APIStatus_of e of
                    Some (r, c, Some causes) \<Rightarrow> any_cause (\<lambda>x. cause_Type x = name) causes
                  | _ \<Rightarrow> False))"

text \<open>reflector.go, \<^verbatim>\<open>isExpiredError\<close> and \<^verbatim>\<open>isTooLargeResourceVersionError\<close>.\<close>

definition isExpiredError :: "go_error option \<Rightarrow> bool" where
  "isExpiredError err = (IsResourceExpired err \<or> IsGone err)"

definition isTooLargeResourceVersionError :: "go_error option \<Rightarrow> bool" where
  "isTooLargeResourceVersionError err =
     (if HasStatusCause err CauseTypeResourceVersionTooLarge then True
      else if \<not> IsTimeout err then False
      else (case err of
              Some (StatusError r c (Some causes)) \<Rightarrow>
                any_cause (\<lambda>x. cause_Message x = ''Too large resource version'') causes
            | _ \<Rightarrow> False))"

section \<open>The reflector (pkg/runtime/informer/reflector.go)\<close>

text \<open>
  The fields of \<^verbatim>\<open>Reflector\<close> that the list phase reads or writes. The lock that
  guards \<open>lastSyncResourceVersion\<close> and \<open>isLastSyncResourceVersionUnavailable\<close> is not
  modelled: the list phase is followed as one sequential run.
\<close>

record Reflector =
  paginatedResult :: bool
  lastSyncResourceVersion :: string
  isLastSyncResourceVersionUnavailable :: bool
  WatchListPageSize :: int
  StreamHandleForPaginatedList :: bool
  ForcePaginatedList :: bool

definition relistResourceVersion :: "Reflector \<Rightarrow> string" where
  "relistResourceVersion r =
     (if isLastSyncResourceVersionUnavailable r then ''''
      else if lastSyncResourceVersion r = '''' then
        (if ForcePaginatedList r then '''' else ''0'')
      else lastSyncResourceVersion r)"

definition setIsLastSyncResourceVersionUnavailable :: "bool \<Rightarrow> Reflector \<Rightarrow> Reflector" where
  "setIsLastSyncResourceVersionUnavailable isUnavailable r =
     r\<lparr>isLastSyncResourceVersionUnavailable := isUnavailable\<rparr>"

definition setLastSyncResourceVersion :: "string \<Rightarrow> Reflector \<Rightarrow> Reflector" where
  "setLastSyncResourceVersion v r = r\<lparr>lastSyncResourceVersion := v\<rparr>"

text \<open>
  What the store's \<^verbatim>\<open>Replace\<close> receives: full objects, or explicit keys when the
  items were streamed into the store while the pages arrived.
\<close>

datatype store_item = ItemObject string | ItemKey string

text \<open>
  The list object a pager call hands back: its resource version and its items.
  \<open>listed_items = None\<close> is a list \<^verbatim>\<open>meta.ExtractList\<close> cannot read.
\<close>

record listed =
  listed_resourceVersion :: string
  listed_items :: "string list option"

text \<open>
  The four results of one pager call (\<^verbatim>\<open>pager.List\<close>, or \<^verbatim>\<open>listWithResultStream\<close>
  when the reflector streams): the list (\<open>None\<close> when \<^verbatim>\<open>meta.ListAccessor\<close> cannot
  read it), the keys of the streamed items, whether the result was paginated, and the
  error.
\<close>

record list_response =
  resp_list :: "listed option"
  resp_itemKeys :: "string list"
  resp_paginated :: bool
  resp_err :: "go_error option"

text \<open>
  The collaborators of the list phase, which are not part of reflector.go: the pager
  over the lister-watcher and the store. Both act on a world \<open>'w\<close> (the remote API
  server and the store's contents), which every call threads through. A pager call is
  given whether it streams, the page size and the resource version of its options.
  \<open>defaultPageSize\<close> is the page size \<^verbatim>\<open>clspager.New\<close> sets.
\<close>

record 'w list_env =
  pager_List :: "'w \<Rightarrow> bool \<Rightarrow> int \<Rightarrow> string \<Rightarrow> list_response \<times> 'w"
  store_Replace :: "'w \<Rightarrow> store_item list \<Rightarrow> string \<Rightarrow> go_error option \<times> 'w"
  defaultPageSize :: int

text \<open>The \<^verbatim>\<open>switch\<close> that sets \<^verbatim>\<open>pager.PageSize\<close>.\<close>

definition pager_PageSize :: "'w list_env \<Rightarrow> Reflector \<Rightarrow> string \<Rightarrow> int" where
  "pager_PageSize env r rv =
     (if WatchListPageSize r \<noteq> 0 then WatchListPageSize r
      else if paginatedResult r then defaultPageSize env
      else if rv \<noteq> '''' \<and> rv \<noteq> ''0'' then 0
      else defaultPageSize env)"

text \<open>
  The body of the goroutine of \<^verbatim>\<open>list\<close>: one pager call with the options chosen
  on entry and, when it fails with an expired or too-large-resource-version error, the
  flag is set and a second call is made with freshly computed options. The page size
  stays the one set before the first call.
\<close>

definition list_attempt :: "'w list_env \<Rightarrow> Reflector \<Rightarrow> 'w \<Rightarrow> Reflector \<times> list_response \<times> 'w" where
  "list_attempt env r w =
     (let rv = relistResourceVersion r;
          pageSize = pager_PageSize env r rv;
          (resp1, w1) = pager_List env w (StreamHandleForPaginatedList r) pageSize rv
      in if isExpiredError (resp_err resp1) \<or> isTooLargeResourceVersionError (resp_err resp1) then
           (let r1 = setIsLastSyncResourceVersionUnavailable True r;
                (resp2, w2) = pager_List env w1 (StreamHandleForPaginatedList r1) pageSize
                                (relistResourceVersion r1)
            in (r1, resp2, w2))
         else (r, resp1, w1))"

text \<open>
  What \<^verbatim>\<open>list\<close> does once the goroutine has closed \<^verbatim>\<open>listCh\<close>. \<open>rv\<close> is
  \<^verbatim>\<open>options.ResourceVersion\<close> of the options built on entry of \<^verbatim>\<open>list\<close> (the options
  of the retry are a variable of their own, local to the retry).
\<close>

definition list_finish :: "'w list_env \<Rightarrow> string \<Rightarrow> Reflector \<times> list_response \<times> 'w \<Rightarrow> Reflector \<times> 'w \<times> go_error option" where
  "list_finish env rv a =
     (case a of (r1, resp, w2) \<Rightarrow>
        (case resp_err resp of
           Some e \<Rightarrow> (r1, w2, Some (Wrapped ''failed to list'' e))
         | None \<Rightarrow>
             (let r2 = (if rv = ''0'' \<and> resp_paginated resp then r1\<lparr>paginatedResult := True\<rparr> else r1);
                  r3 = setIsLastSyncResourceVersionUnavailable False r2
              in case resp_list resp of
                   None \<Rightarrow> (r3, w2, Some (ErrorString ''unable to understand list result''))
                 | Some l \<Rightarrow>
                     (let resourceVersion = listed_resourceVersion l
                      in if resp_itemKeys resp \<noteq> [] then
                           (case store_Replace env w2 (map ItemKey (resp_itemKeys resp)) resourceVersion of
                              (Some e, w3) \<Rightarrow> (r3, w3, Some (ErrorString ''unable to sync list result''))
                            | (None, w3) \<Rightarrow> (setLastSyncResourceVersion resourceVersion r3, w3, None))
                         else
                           (case listed_items l of
                              None \<Rightarrow> (r3, w2, Some (ErrorString ''unable to understand list result''))
                            | Some items \<Rightarrow>
                                (case store_Replace env w2 (map ItemObject items) resourceVersion of
                                   (Some e, w3) \<Rightarrow> (r3, w3, Some (ErrorString ''unable to sync list result''))
                                 | (None, w3) \<Rightarrow> (setLastSyncResourceVersion resourceVersion r3, w3, None)))))))"

text \<open>
  \<^verbatim>\<open>Reflector.list\<close>. \<open>stop\<close> says that the \<^verbatim>\<open>select\<close> took the stop channel: the
  function then returns nil at once, and what the goroutine does afterwards is not part
  of this call. A panic of the lister is not modelled.
\<close>

definition Reflector_list :: "'w list_env \<Rightarrow> Reflector \<Rightarrow> 'w \<Rightarrow> bool \<Rightarrow> Reflector \<times> 'w \<times> go_error option" where
  "Reflector_list env r w stop =
     (if stop then (r, w, None)
      else list_finish env (relistResourceVersion r) (list_attempt env r w))"

text \<open>
  A lister for concrete runs: the world is the list of responses still to come and the
  requests made so far, \<open>(stream, page size, resource version)\<close> each. A call takes the
  next response; when none is left the server answers with an internal error.
\<close>

type_synonym script_world = "list_response list \<times> (bool \<times> int \<times> string) list"

definition ok_response :: "string \<Rightarrow> bool \<Rightarrow> list_response" where
  "ok_response rv paginated =
     \<lparr>resp_list = Some \<lparr>listed_resourceVersion = rv, listed_items = Some []\<rparr>,
      resp_itemKeys = [], resp_paginated = paginated, resp_err = None\<rparr>"

definition err_response :: "go_error \<Rightarrow> list_response" where
  "err_response e = \<lparr>resp_list = None, resp_itemKeys = [], resp_paginated = False, resp_err = Some e\<rparr>"

definition script_env :: "script_world list_env" where
  "script_env =
     \<lparr>pager_List = (\<lambda>w stream size rv.
        (case fst w of
           [] \<Rightarrow> (err_response (StatusError StatusReasonInternalError 500 None),
                  ([], snd w @ [(stream, size, rv)]))
         | x # xs \<Rightarrow> (x, (xs, snd w @ [(stream, size, rv)])))),
      store_Replace = (\<lambda>w items rv. (None, w)),
      defaultPageSize = 500\<rparr>"

definition fresh_Reflector :: Reflector where
  "fresh_Reflector =
     \<lparr>paginatedResult = False, lastSyncResourceVersion = '''',
      isLastSyncResourceVersionUnavailable = False, WatchListPageSize = 0,
      StreamHandleForPaginatedList = False, ForcePaginatedList = False\<rparr>"

definition expired_error :: go_error where
  "expired_error = StatusError StatusReasonExpired 410 None"

definition seen5 :: Reflector where
  "seen5 = fresh_Reflector\<lparr>lastSyncResourceVersion := ''5''\<rparr>"

section \<open>The row schema and its codecs (pkg/storage/internalstorage/types.go)\<close>

type_synonym bytes = string
type_synonym time = int
type_synonym int64 = "64 word"

record ResourceType =
  rt_Group :: string
  rt_Version :: string
  rt_Resource :: string
  rt_Kind :: string

definition empty_ResourceType :: ResourceType where
  "empty_ResourceType = \<lparr>rt_Group = '''', rt_Version = '''', rt_Resource = '''', rt_Kind = ''''\<rparr>"

definition ResourceType_Empty :: "ResourceType \<Rightarrow> bool" where
  "ResourceType_Empty rt = (rt = empty_ResourceType)"

text \<open>
  A Go map is nil or holds entries; \<open>None\<close> is the nil map, the zero value of the
  field, and \<open>Some []\<close> a map that was made and holds nothing.
\<close>

type_synonym JSONMap = "(string \<times> bytes) list option"

text \<open>\<^verbatim>\<open>clause.Expr\<close>: the SQL text of a value and the variables bound to its placeholders.\<close>

record clause_Expr =
  expr_SQL :: string
  expr_Vars :: "string list"

definition gorm_Expr :: "string \<Rightarrow> string list \<Rightarrow> clause_Expr" where
  "gorm_Expr sql vars = \<lparr>expr_SQL = sql, expr_Vars = vars\<rparr>"

text \<open>
  \<^verbatim>\<open>Resource\<close>, the row. \<open>res_DeletedAt\<close> is the \<^verbatim>\<open>sql.NullTime\<close>: \<open>None\<close> when
  not valid, which is stored as NULL.
\<close>

record Resource =
  res_ID :: nat
  res_Group :: string
  res_Version :: string
  res_Resource :: string
  res_Kind :: string
  res_Cluster :: string
  res_Namespace :: string
  res_Name :: string
  res_OwnerUID :: string
  res_UID :: string
  res_ResourceVersion :: string
  res_Object :: bytes
  res_Events :: JSONMap
  res_EventResourceVersions :: JSONMap
  res_CreatedAt :: time
  res_SyncedAt :: time
  res_DeletedAt :: "time option"

subsection \<open>API objects\<close>

record OwnerReference =
  owner_UID :: string
  owner_Controller :: "bool option"

record ObjectMeta =
  meta_Name :: string
  meta_Namespace :: string
  meta_UID :: string
  meta_ResourceVersion :: string
  meta_CreationTimestamp :: time
  meta_DeletionTimestamp :: "time option"
  meta_OwnerReferences :: "OwnerReference list"
  meta_Annotations :: "(string \<times> string) list option"

definition empty_ObjectMeta :: ObjectMeta where
  "empty_ObjectMeta =
     \<lparr>meta_Name = '''', meta_Namespace = '''', meta_UID = '''', meta_ResourceVersion = '''',
      meta_CreationTimestamp = 0, meta_DeletionTimestamp = None, meta_OwnerReferences = [],
      meta_Annotations = None\<rparr>"

record api_object =
  obj_APIVersion :: string
  obj_Kind :: string
  obj_Meta :: ObjectMeta
  obj_Content :: string

definition empty_api_object :: api_object where
  "empty_api_object =
     \<lparr>obj_APIVersion = '''', obj_Kind = '''', obj_Meta = empty_ObjectMeta, obj_Content = ''''\<rparr>"

text \<open>
  A \<^verbatim>\<open>runtime.Object\<close>: a typed object with object metadata, an
  \<^verbatim>\<open>*unstructured.Unstructured\<close>, or an object of the given kind that has no object
  metadata (\<^verbatim>\<open>meta.Accessor\<close> fails on it).
\<close>

datatype runtime_Object =
    Structured api_object
  | Unstructured api_object
  | Opaque string

text \<open>The fresh object a decoder is asked to fill: \<^verbatim>\<open>&unstructured.Unstructured{}\<close>
  or a copy of the zero value of a typed list's element.\<close>

datatype target = IntoUnstructured | IntoStructured

definition fresh_object :: "target \<Rightarrow> runtime_Object" where
  "fresh_object t = (case t of IntoUnstructured \<Rightarrow> Unstructured empty_api_object
                     | IntoStructured \<Rightarrow> Structured empty_api_object)"

definition meta_Accessor :: "runtime_Object \<Rightarrow> go_error + ObjectMeta" where
  "meta_Accessor obj =
     (case obj of
        Structured x \<Rightarrow> Inr (obj_Meta x)
      | Unstructured x \<Rightarrow> Inr (obj_Meta x)
      | Opaque k \<Rightarrow> Inl (ErrorString ''object does not implement the Object interfaces''))"

definition GetObjectKind_Kind :: "runtime_Object \<Rightarrow> string" where
  "GetObjectKind_Kind obj =
     (case obj of Structured x \<Rightarrow> obj_Kind x | Unstructured x \<Rightarrow> obj_Kind x | Opaque k \<Rightarrow> k)"

text \<open>\<^verbatim>\<open>metav1.GetControllerOfNoCopy\<close>: the first owner reference marked as controller.\<close>

fun GetControllerOfNoCopy :: "OwnerReference list \<Rightarrow> OwnerReference option" where
  "GetControllerOfNoCopy [] = None"
| "GetControllerOfNoCopy (ref # refs) =
     (if owner_Controller ref = Some True then Some ref else GetControllerOfNoCopy refs)"

definition controller_UID :: "ObjectMeta \<Rightarrow> string" where
  "controller_UID metaobj =
     (case GetControllerOfNoCopy (meta_OwnerReferences metaobj) of
        None \<Rightarrow> '''' | Some owner \<Rightarrow> owner_UID owner)"

text \<open>
  \<^verbatim>\<open>schema.ParseGroupVersion\<close>: the empty group and version for the empty string and
  for a lone slash, the version alone when there is no slash, the group before and the
  version after the slash when there is one, and an error (\<open>None\<close>) when there are more.
\<close>

definition ParseGroupVersion :: "string \<Rightarrow> (string \<times> string) option" where
  "ParseGroupVersion gv =
     (if gv = '''' \<or> gv = ''/'' then Some ('''', '''')
      else if length (filter (\<lambda>c. c = CHR ''/'') gv) = 0 then Some ('''', gv)
      else if length (filter (\<lambda>c. c = CHR ''/'') gv) = 1 then
        Some (takeWhile (\<lambda>c. c \<noteq> CHR ''/'') gv, tl (dropWhile (\<lambda>c. c \<noteq> CHR ''/'') gv))
      else None)"

text \<open>
  \<^verbatim>\<open>Unstructured.GroupVersionKind().Empty()\<close>: when the apiVersion does not parse, the
  group-version-kind is the empty one whatever the kind; otherwise it is the parsed group
  and version with the object's kind, which is empty when all three are.
\<close>

definition GroupVersionKind_Empty :: "api_object \<Rightarrow> bool" where
  "GroupVersionKind_Empty u =
     (case ParseGroupVersion (obj_APIVersion u) of
        None \<Rightarrow> True
      | Some (g, v) \<Rightarrow> g = '''' \<and> v = '''' \<and> obj_Kind u = '''')"

record Event =
  event_UID :: string
  event_Namespace :: string
  event_Name :: string
  event_ResourceVersion :: string
  event_InvolvedObjectUID :: string
  event_Message :: string

subsection \<open>The database handle and the list options\<close>

datatype where_arg = ArgString string | ArgStrings "string list" | ArgSubquery string

datatype where_clause = WhereMap "(string \<times> string) list" | WhereCond string "where_arg list"

text \<open>
  \<^verbatim>\<open>*gorm.DB\<close> as the storage uses it: the dialector's name and the statement built
  so far.
\<close>

record gorm_DB =
  Dialector_Name :: string
  Statement_Table :: string
  Statement_Selects :: "string list"
  Statement_Wheres :: "where_clause list"
  Statement_Orders :: "string list"
  Statement_Limit :: "int option"
  Statement_Offset :: "int option"

definition gorm_Model_Resource :: "gorm_DB \<Rightarrow> gorm_DB" where
  "gorm_Model_Resource d = d\<lparr>Statement_Table := ''resources''\<rparr>"

definition gorm_Where :: "where_clause \<Rightarrow> gorm_DB \<Rightarrow> gorm_DB" where
  "gorm_Where c d = d\<lparr>Statement_Wheres := Statement_Wheres d @ [c]\<rparr>"

definition gorm_Select :: "string list \<Rightarrow> gorm_DB \<Rightarrow> gorm_DB" where
  "gorm_Select cols d = d\<lparr>Statement_Selects := cols\<rparr>"

text \<open>The fields of \<^verbatim>\<open>internal.ListOptions\<close> (declared in the API module) that the
  storage reads.\<close>

record ListOptions =
  ClusterNames :: "string list"
  Namespaces :: "string list"
  OwnerUID :: string
  OwnerName :: string
  OwnerGroupResource :: "string \<times> string"
  OwnerSeniority :: int
  OnlyMetadata :: bool
  InjectEvents :: bool
  WithContinue :: "bool option"
  Limit :: int64

text \<open>The value \<^verbatim>\<open>buildOwnerQueryByUID\<close> and \<^verbatim>\<open>buildOwnerQueryByName\<close> hand back
  as \<^verbatim>\<open>interface{}\<close>: a string, or a sub-query.\<close>

datatype owner_query = OwnerString string | OwnerSubquery string

text \<open>The columns a query's rows are scanned from, as the database returns them; a
  column that was not selected or is NULL is empty.\<close>

record db_row =
  col_group :: string
  col_version :: string
  col_resource :: string
  col_kind :: string
  col_metadata :: bytes
  col_object :: bytes
  col_events :: bytes

text \<open>
  What the storage calls and neither types.go nor resource_storage.go defines: the
  configured codec, \<^verbatim>\<open>encoding/json\<close>, the events codec, the database behind \<^verbatim>\<open>Find\<close>,
  the list-options translator \<^verbatim>\<open>applyListOptionsToQuery\<close>, the owner sub-query
  builders, the error interpreters, the annotation key \<^verbatim>\<open>internal.ShadowAnnotationEvents\<close>
  and \<^verbatim>\<open>datatypes.JSONMap.GormValue\<close>. They are parameters of the model.
\<close>

record storage_env =
  codec_Encode :: "runtime_Object \<Rightarrow> go_error + bytes"
  codec_Decode :: "bytes \<Rightarrow> target \<Rightarrow> go_error + runtime_Object"
  json_Unmarshal_ObjectMeta :: "bytes \<Rightarrow> go_error + ObjectMeta"
  json_Unmarshal_map :: "bytes \<Rightarrow> go_error + ObjectMeta"
  json_Unmarshal_RawMessages :: "bytes \<Rightarrow> go_error + (string \<times> bytes) list"
  codec_Decode_Event :: "bytes \<Rightarrow> go_error + Event"
  json_Marshal_Events :: "Event list \<Rightarrow> go_error + string"
  ShadowAnnotationEvents :: string
  db_Find :: "gorm_DB \<Rightarrow> go_error + db_row list"
  applyListOptionsToQuery ::
    "gorm_DB \<Rightarrow> ListOptions \<Rightarrow> (gorm_DB \<Rightarrow> ListOptions \<Rightarrow> go_error + gorm_DB)
       \<Rightarrow> go_error + (int64 \<times> int64 option \<times> gorm_DB)"
  buildOwnerQueryByUID :: "gorm_DB \<Rightarrow> string \<Rightarrow> string \<Rightarrow> int \<Rightarrow> owner_query"
  buildOwnerQueryByName ::
    "gorm_DB \<Rightarrow> string \<Rightarrow> string list \<Rightarrow> string \<times> string \<Rightarrow> string \<Rightarrow> int \<Rightarrow> owner_query"
  InterpretDBError :: "string \<Rightarrow> go_error \<Rightarrow> go_error"
  InterpretResourceDBError :: "string \<Rightarrow> string \<Rightarrow> go_error option \<Rightarrow> go_error option"
  datatypes_JSONMap_GormValue :: "JSONMap \<Rightarrow> clause_Expr"

text \<open>\<^verbatim>\<open>JSONMap.GormValue\<close>.\<close>

definition JSONMap_GormValue :: "storage_env \<Rightarrow> JSONMap \<Rightarrow> clause_Expr" where
  "JSONMap_GormValue env m =
     (case m of
        None \<Rightarrow> gorm_Expr ''NULL'' []
      | Some kv \<Rightarrow> datatypes_JSONMap_GormValue env m)"

subsection \<open>The four projections of a row and their lists\<close>

record ResourceMetadata =
  rm_ResourceType :: ResourceType
  rm_Metadata :: bytes

text \<open>
  The implementations of \<^verbatim>\<open>Object\<close> that a list can hold: \<^verbatim>\<open>Bytes\<close>,
  \<^verbatim>\<open>ResourceMetadata\<close>, \<^verbatim>\<open>BytesWithEvents\<close> (object, events) and
  \<^verbatim>\<open>ResourceMetadataWithEvents\<close> (metadata, events).
\<close>

datatype Object =
    Bytes_Object bytes
  | ResourceMetadata_Object ResourceMetadata
  | BytesWithEvents_Object bytes bytes
  | ResourceMetadataWithEvents_Object ResourceMetadata bytes

text \<open>The four implementations of \<^verbatim>\<open>ObjectList\<close> that \<^verbatim>\<open>genListObjectsQuery\<close>
  chooses from, each with the element type its declaration gives it.\<close>

datatype ObjectList =
    ResourceMetadataWithEventsList "ResourceMetadata list"
  | ResourceMetadataList "ResourceMetadata list"
  | BytesWithEventsList "(bytes \<times> bytes) list"
  | BytesList "bytes list"

definition scan_ResourceMetadata :: "db_row \<Rightarrow> ResourceMetadata" where
  "scan_ResourceMetadata row =
     \<lparr>rm_ResourceType = \<lparr>rt_Group = col_group row, rt_Version = col_version row,
                          rt_Resource = col_resource row, rt_Kind = col_kind row\<rparr>,
      rm_Metadata = col_metadata row\<rparr>"

definition unsupported_dialector :: string where
  "unsupported_dialector = ''storage: only support sqlite3, mysql or postgres''"

text \<open>The \<^verbatim>\<open>switch db.Dialector.Name()\<close> of \<^verbatim>\<open>ResourceMetadataList.From\<close>.\<close>

definition ResourceMetadataList_Select :: "gorm_DB \<Rightarrow> gorm_DB outcome" where
  "ResourceMetadataList_Select d =
     (if Dialector_Name d = ''sqlite'' \<or> Dialector_Name d = ''sqlite3'' \<or> Dialector_Name d = ''mysql''
      then Returned (gorm_Select [''`group`, version, resource, kind, object->>'$.metadata' as metadata''] d)
      else if Dialector_Name d = ''postgres''
      then Returned (gorm_Select [''\"group\", version, resource, kind, object->>'metadata' as metadata''] d)
      else Panicked unsupported_dialector)"

text \<open>The \<^verbatim>\<open>switch db.Dialector.Name()\<close> of \<^verbatim>\<open>ResourceMetadataWithEventsList.From\<close>.\<close>

definition ResourceMetadataWithEventsList_Select :: "gorm_DB \<Rightarrow> gorm_DB outcome" where
  "ResourceMetadataWithEventsList_Select d =
     (if Dialector_Name d = ''sqlite'' \<or> Dialector_Name d = ''sqlite3'' \<or> Dialector_Name d = ''mysql''
      then Returned (gorm_Select [''`group`, version, resource, kind, object->>'$.metadata' as metadata, events''] d)
      else if Dialector_Name d = ''postgres''
      then Returned (gorm_Select [''\"group\", version, resource, kind, object->>'metadata' as metadata, events''] d)
      else Panicked unsupported_dialector)"

text \<open>
  \<^verbatim>\<open>From\<close> of the four lists. The rows found are scanned into the list's element
  type: the elements of \<^verbatim>\<open>ResourceMetadataWithEventsList\<close> are \<^verbatim>\<open>ResourceMetadata\<close>,
  which has no field for the selected \<^verbatim>\<open>events\<close> column.
\<close>

definition From :: "storage_env \<Rightarrow> ObjectList \<Rightarrow> gorm_DB \<Rightarrow> (go_error + ObjectList) outcome" where
  "From env lst d =
     (case lst of
        ResourceMetadataWithEventsList old \<Rightarrow>
          (case ResourceMetadataWithEventsList_Select d of
             Panicked msg \<Rightarrow> Panicked msg
           | Returned q \<Rightarrow>
               (case db_Find env q of
                  Inl err \<Rightarrow> Returned (Inl err)
                | Inr rows \<Rightarrow> Returned (Inr (ResourceMetadataWithEventsList (map scan_ResourceMetadata rows)))))
      | ResourceMetadataList old \<Rightarrow>
          (case ResourceMetadataList_Select d of
             Panicked msg \<Rightarrow> Panicked msg
           | Returned q \<Rightarrow>
               (case db_Find env q of
                  Inl err \<Rightarrow> Returned (Inl err)
                | Inr rows \<Rightarrow> Returned (Inr (ResourceMetadataList (map scan_ResourceMetadata rows)))))
      | BytesWithEventsList old \<Rightarrow>
          (case db_Find env (gorm_Select [''object'', ''events''] d) of
             Inl err \<Rightarrow> Returned (Inl err)
           | Inr rows \<Rightarrow> Returned (Inr (BytesWithEventsList (map (\<lambda>row. (col_object row, col_events row)) rows))))
      | BytesList old \<Rightarrow>
          (case db_Find env (gorm_Select [''object''] d) of
             Inl err \<Rightarrow> Returned (Inl err)
           | Inr rows \<Rightarrow> Returned (Inr (BytesList (map col_object rows)))))"

definition Items :: "ObjectList \<Rightarrow> Object list" where
  "Items lst =
     (case lst of
        ResourceMetadataWithEventsList xs \<Rightarrow> map ResourceMetadata_Object xs
      | ResourceMetadataList xs \<Rightarrow> map ResourceMetadata_Object xs
      | BytesWithEventsList xs \<Rightarrow> map (\<lambda>(obj, events). BytesWithEvents_Object obj events) xs
      | BytesList xs \<Rightarrow> map Bytes_Object xs)"

text \<open>\<^verbatim>\<open>EventsBytes.Decode\<close>: the events column is a JSON map from event UID to the
  encoded event; every entry is decoded, and the first failure ends the decoding.\<close>

fun decode_events :: "storage_env \<Rightarrow> bytes list \<Rightarrow> go_error + Event list" where
  "decode_events env [] = Inr []"
| "decode_events env (obj # objs) =
     (case codec_Decode_Event env obj of
        Inl err \<Rightarrow> Inl err
      | Inr event \<Rightarrow> (case decode_events env objs of
                        Inl err \<Rightarrow> Inl err
                      | Inr events \<Rightarrow> Inr (event # events)))"

definition EventsBytes_Decode :: "storage_env \<Rightarrow> bytes \<Rightarrow> go_error + Event list" where
  "EventsBytes_Decode env b =
     (case json_Unmarshal_RawMessages env b of
        Inl err \<Rightarrow> Inl err
      | Inr objects \<Rightarrow> decode_events env (map snd objects))"

text \<open>\<^verbatim>\<open>GetEvents\<close>: \<open>None\<close> is the nil slice.\<close>

definition GetEvents :: "storage_env \<Rightarrow> Object \<Rightarrow> Event list option" where
  "GetEvents env object =
     (case object of
        Bytes_Object b \<Rightarrow> None
      | ResourceMetadata_Object d \<Rightarrow> None
      | BytesWithEvents_Object b ev \<Rightarrow>
          (case EventsBytes_Decode env ev of Inl err \<Rightarrow> None | Inr events \<Rightarrow> Some events)
      | ResourceMetadataWithEvents_Object d ev \<Rightarrow>
          (case EventsBytes_Decode env ev of Inl err \<Rightarrow> None | Inr events \<Rightarrow> Some events))"

definition GetResourceType :: "Object \<Rightarrow> ResourceType" where
  "GetResourceType object =
     (case object of
        Bytes_Object b \<Rightarrow> empty_ResourceType
      | ResourceMetadata_Object d \<Rightarrow> rm_ResourceType d
      | BytesWithEvents_Object b ev \<Rightarrow> empty_ResourceType
      | ResourceMetadataWithEvents_Object d ev \<Rightarrow> rm_ResourceType d)"

text \<open>\<^verbatim>\<open>ResourceMetadata.ConvertTo\<close> into a fresh object: only the metadata is filled.\<close>

definition ResourceMetadata_ConvertTo :: "storage_env \<Rightarrow> ResourceMetadata \<Rightarrow> target \<Rightarrow> go_error + runtime_Object" where
  "ResourceMetadata_ConvertTo env d t =
     (case t of
        IntoUnstructured \<Rightarrow>
          (case json_Unmarshal_map env (rm_Metadata d) of
             Inl err \<Rightarrow> Inl err
           | Inr metadata \<Rightarrow> Inr (Unstructured (empty_api_object\<lparr>obj_Meta := metadata\<rparr>)))
      | IntoStructured \<Rightarrow>
          (case json_Unmarshal_ObjectMeta env (rm_Metadata d) of
             Inl err \<Rightarrow> Inl err
           | Inr metadata \<Rightarrow> Inr (Structured (empty_api_object\<lparr>obj_Meta := metadata\<rparr>))))"

definition ConvertTo :: "storage_env \<Rightarrow> Object \<Rightarrow> target \<Rightarrow> go_error + runtime_Object" where
  "ConvertTo env object t =
     (case object of
        Bytes_Object b \<Rightarrow> codec_Decode env b t
      | ResourceMetadata_Object d \<Rightarrow> ResourceMetadata_ConvertTo env d t
      | BytesWithEvents_Object b ev \<Rightarrow> codec_Decode env b t
      | ResourceMetadataWithEvents_Object d ev \<Rightarrow> ResourceMetadata_ConvertTo env d t)"

section \<open>The resource storage (pkg/storage/internalstorage/resource_storage.go)\<close>

record GroupVersionResource =
  gvr_Group :: string
  gvr_Version :: string
  gvr_Resource :: string

record ResourceStorage =
  groupResource :: "string \<times> string"
  db :: gorm_DB
  config_StorageResource :: GroupVersionResource

text \<open>\<^verbatim>\<open>schema.GroupResource.String\<close>.\<close>

definition GroupResource_String :: "string \<times> string \<Rightarrow> string" where
  "GroupResource_String gr = (if fst gr = '''' then snd gr else snd gr @ ''.'' @ fst gr)"

definition gvrKeyMap :: "ResourceStorage \<Rightarrow> (string \<times> string) list" where
  "gvrKeyMap s =
     [(''group'', gvr_Group (config_StorageResource s)),
      (''version'', gvr_Version (config_StorageResource s)),
      (''resource'', gvr_Resource (config_StorageResource s))]"

definition resourceKeyMap :: "ResourceStorage \<Rightarrow> string \<Rightarrow> string \<Rightarrow> string \<Rightarrow> (string \<times> string) list" where
  "resourceKeyMap s cluster namespace name =
     [(''cluster'', cluster),
      (''group'', gvr_Group (config_StorageResource s)),
      (''version'', gvr_Version (config_StorageResource s)),
      (''resource'', gvr_Resource (config_StorageResource s)),
      (''namespace'', namespace),
      (''name'', name)]"

subsection \<open>The table and the statements gorm runs on it\<close>

text \<open>
  The table is the list of its rows. A \<^verbatim>\<open>Where\<close> with a map keeps the rows whose
  named columns equal the map's values. \<^verbatim>\<open>Updates\<close> with a map of columns assigns
  exactly the columns of the map in every row kept, and the row's
  \<^verbatim>\<open>autoUpdateTime\<close> column \<open>synced_at\<close>; a column the map does not name keeps the
  value stored.
\<close>

definition key_column :: "Resource \<Rightarrow> string \<Rightarrow> string option" where
  "key_column row col =
     (if col = ''cluster'' then Some (res_Cluster row)
      else if col = ''group'' then Some (res_Group row)
      else if col = ''version'' then Some (res_Version row)
      else if col = ''resource'' then Some (res_Resource row)
      else if col = ''namespace'' then Some (res_Namespace row)
      else if col = ''name'' then Some (res_Name row)
      else if col = ''uid'' then Some (res_UID row)
      else None)"

fun matches_key :: "(string \<times> string) list \<Rightarrow> Resource \<Rightarrow> bool" where
  "matches_key [] row = True"
| "matches_key ((col, v) # rest) row = (key_column row col = Some v \<and> matches_key rest row)"

datatype column_value =
    StringColumn string
  | JSONColumn bytes
  | TimeColumn time
  | NullTimeColumn "time option"

definition assign_column :: "string \<times> column_value \<Rightarrow> Resource \<Rightarrow> Resource" where
  "assign_column a row =
     (case a of
        (col, StringColumn v) \<Rightarrow>
          (if col = ''owner_uid'' then row\<lparr>res_OwnerUID := v\<rparr>
           else if col = ''uid'' then row\<lparr>res_UID := v\<rparr>
           else if col = ''resource_version'' then row\<lparr>res_ResourceVersion := v\<rparr>
           else row)
      | (col, JSONColumn v) \<Rightarrow> (if col = ''object'' then row\<lparr>res_Object := v\<rparr> else row)
      | (col, TimeColumn v) \<Rightarrow> (if col = ''created_at'' then row\<lparr>res_CreatedAt := v\<rparr> else row)
      | (col, NullTimeColumn v) \<Rightarrow> (if col = ''deleted_at'' then row\<lparr>res_DeletedAt := v\<rparr> else row))"

definition gorm_Updates :: "time \<Rightarrow> (string \<times> string) list \<Rightarrow> (string \<times> column_value) list \<Rightarrow> Resource list \<Rightarrow> Resource list" where
  "gorm_Updates now key columns table =
     map (\<lambda>row. if matches_key key row then (fold assign_column columns row)\<lparr>res_SyncedAt := now\<rparr>
                 else row) table"

subsection \<open>Create and Update\<close>

text \<open>
  The row \<^verbatim>\<open>Create\<close> builds and hands to \<^verbatim>\<open>db.Create\<close>, or the error it returns
  before reaching the database. The fields the composite literal leaves out hold their
  zero values: the two JSON maps are nil.
\<close>

definition Create_resource :: "storage_env \<Rightarrow> ResourceStorage \<Rightarrow> string \<Rightarrow> runtime_Object \<Rightarrow> go_error + Resource" where
  "Create_resource env s cluster obj =
     (if GetObjectKind_Kind obj = '''' then Inl (ErrorString ''kind is required'')
      else case meta_Accessor obj of
        Inl err \<Rightarrow> Inl err
      | Inr metaobj \<Rightarrow>
          (let ownerUID = controller_UID metaobj
           in case codec_Encode env obj of
                Inl err \<Rightarrow> Inl err
              | Inr buffer \<Rightarrow>
                  Inr \<lparr>res_ID = 0,
                       res_Group = gvr_Group (config_StorageResource s),
                       res_Version = gvr_Version (config_StorageResource s),
                       res_Resource = gvr_Resource (config_StorageResource s),
                       res_Kind = GetObjectKind_Kind obj,
                       res_Cluster = cluster,
                       res_Namespace = meta_Namespace metaobj,
                       res_Name = meta_Name metaobj,
                       res_OwnerUID = ownerUID,
                       res_UID = meta_UID metaobj,
                       res_ResourceVersion = meta_ResourceVersion metaobj,
                       res_Object = buffer,
                       res_Events = None,
                       res_EventResourceVersions = None,
                       res_CreatedAt = meta_CreationTimestamp metaobj,
                       res_SyncedAt = 0,
                       res_DeletedAt = (case meta_DeletionTimestamp metaobj of
                                          None \<Rightarrow> None | Some deletedAt \<Rightarrow> Some deletedAt)\<rparr>))"

text \<open>The values the insert of a row binds to its two JSON map columns.\<close>

definition insert_events_values :: "storage_env \<Rightarrow> Resource \<Rightarrow> clause_Expr \<times> clause_Expr" where
  "insert_events_values env row =
     (JSONMap_GormValue env (res_Events row), JSONMap_GormValue env (res_EventResourceVersions row))"

text \<open>The map \<^verbatim>\<open>updatedResource\<close> of \<^verbatim>\<open>Update\<close>.\<close>

definition updatedResource :: "ObjectMeta \<Rightarrow> bytes \<Rightarrow> (string \<times> column_value) list" where
  "updatedResource metaobj buffer =
     [(''owner_uid'', StringColumn (controller_UID metaobj)),
      (''uid'', StringColumn (meta_UID metaobj)),
      (''resource_version'', StringColumn (meta_ResourceVersion metaobj)),
      (''object'', JSONColumn buffer),
      (''created_at'', TimeColumn (meta_CreationTimestamp metaobj))]
     @ (case meta_DeletionTimestamp metaobj of
          None \<Rightarrow> []
        | Some deletedAt \<Rightarrow> [(''deleted_at'', NullTimeColumn (Some deletedAt))])"

text \<open>
  \<^verbatim>\<open>Update\<close> on a table. \<open>db_err\<close> is the error of the statement (\<open>None\<close> when the
  database ran it, and only then the table changes); \<open>now\<close> is the clock gorm reads
  for \<open>synced_at\<close>.
\<close>

definition Update :: "storage_env \<Rightarrow> ResourceStorage \<Rightarrow> go_error option \<Rightarrow> time \<Rightarrow> Resource list \<Rightarrow> string \<Rightarrow> runtime_Object \<Rightarrow> Resource list \<times> go_error option" where
  "Update env s db_err now table cluster obj =
     (case meta_Accessor obj of
        Inl err \<Rightarrow> (table, Some err)
      | Inr metaobj \<Rightarrow>
          (case codec_Encode env obj of
             Inl err \<Rightarrow> (table, Some err)
           | Inr buffer \<Rightarrow>
               (case db_err of
                  Some e \<Rightarrow> (table, InterpretResourceDBError env cluster (meta_Name metaobj) (Some e))
                | None \<Rightarrow>
                    (gorm_Updates now
                       (resourceKeyMap s cluster (meta_Namespace metaobj) (meta_Name metaobj))
                       (updatedResource metaobj buffer) table,
                     InterpretResourceDBError env cluster (meta_Name metaobj) None))))"

subsection \<open>RecordEvent\<close>

text \<open>
  What \<^verbatim>\<open>RecordEvent\<close> calls and resource_storage.go does not define: the package's
  events codec and \<^verbatim>\<open>JSONUpdate\<close>, which builds the expression that sets one key of a
  JSON column in the database.
\<close>

record event_env =
  event_codec_Encode :: "Event \<Rightarrow> go_error + bytes"
  JSONUpdate :: "string \<Rightarrow> string \<Rightarrow> bytes \<Rightarrow> clause_Expr"

text \<open>\<^verbatim>\<open>cache.MetaNamespaceKeyFunc\<close> of an event.\<close>

definition MetaNamespaceKeyFunc :: "Event \<Rightarrow> string" where
  "MetaNamespaceKeyFunc event =
     (if event_Namespace event \<noteq> '''' then event_Namespace event @ ''/'' @ event_Name event
      else event_Name event)"

text \<open>
  The statement \<^verbatim>\<open>RecordEvent\<close> hands to the database: the map of its \<^verbatim>\<open>Where\<close> and
  the columns of its \<^verbatim>\<open>UpdateColumns\<close>, or the error returned before that.
\<close>

definition RecordEvent_statement :: "event_env \<Rightarrow> string \<Rightarrow> Event \<Rightarrow> go_error + ((string \<times> string) list \<times> (string \<times> clause_Expr) list)" where
  "RecordEvent_statement ev cluster event =
     (if event_InvolvedObjectUID event = '''' then
        Inl (ErrorString ''invalid event: involedObject.UID is empty'')
      else case event_codec_Encode ev event of
        Inl err \<Rightarrow> Inl err
      | Inr buffer \<Rightarrow>
          Inr ([(''cluster'', cluster), (''uid'', event_InvolvedObjectUID event)],
               [(''events'', JSONUpdate ev ''events'' (event_UID event) buffer),
                (''event_resource_versions'',
                 JSONUpdate ev ''event_resource_versions'' (MetaNamespaceKeyFunc event)
                   (event_ResourceVersion event))]))"

definition RecordEvent :: "storage_env \<Rightarrow> event_env \<Rightarrow> go_error option \<Rightarrow> string \<Rightarrow> Event \<Rightarrow> go_error option" where
  "RecordEvent env ev db_err cluster event =
     (case RecordEvent_statement ev cluster event of
        Inl err \<Rightarrow> Some err
      | Inr statement \<Rightarrow>
          (case db_err of
             Some e \<Rightarrow> InterpretResourceDBError env cluster '''' (Some e)
           | None \<Rightarrow> None))"

subsection \<open>The list query\<close>

definition applyOwnerToResourceQuery :: "storage_env \<Rightarrow> gorm_DB \<Rightarrow> gorm_DB \<Rightarrow> ListOptions \<Rightarrow> go_error + gorm_DB" where
  "applyOwnerToResourceQuery env d query opts =
     (if length (ClusterNames opts) \<noteq> 1 then Inr query
      else if OwnerUID opts \<noteq> '''' then
        (case buildOwnerQueryByUID env d (hd (ClusterNames opts)) (OwnerUID opts) (OwnerSeniority opts) of
           OwnerString v \<Rightarrow> Inr (gorm_Where (WhereCond ''owner_uid = ?'' [ArgString v]) query)
         | OwnerSubquery q \<Rightarrow> Inr (gorm_Where (WhereCond ''owner_uid IN (?)'' [ArgSubquery q]) query))
      else if OwnerName opts \<noteq> '''' then
        (let ownerNamespaces = (if Namespaces opts \<noteq> [] then Namespaces opts @ [''''] else [])
         in case buildOwnerQueryByName env d (hd (ClusterNames opts)) ownerNamespaces
                   (OwnerGroupResource opts) (OwnerName opts) (OwnerSeniority opts) of
              OwnerString v \<Rightarrow> Inr (gorm_Where (WhereCond ''owner_uid = ?'' [ArgString v]) query)
            | OwnerSubquery q \<Rightarrow> Inr (gorm_Where (WhereCond ''owner_uid IN (?)'' [ArgSubquery q]) query))
      else Inr query)"

definition applyListOptionsToResourceQuery :: "storage_env \<Rightarrow> gorm_DB \<Rightarrow> gorm_DB \<Rightarrow> ListOptions \<Rightarrow> go_error + (int64 \<times> int64 option \<times> gorm_DB)" where
  "applyListOptionsToResourceQuery env d query opts =
     applyListOptionsToQuery env query opts (\<lambda>query opts. applyOwnerToResourceQuery env d query opts)"

definition genListObjectsQuery :: "storage_env \<Rightarrow> ResourceStorage \<Rightarrow> ListOptions \<Rightarrow> go_error + (int64 \<times> int64 option \<times> gorm_DB \<times> ObjectList)" where
  "genListObjectsQuery env s opts =
     (let result = (if OnlyMetadata opts \<and> InjectEvents opts then ResourceMetadataWithEventsList []
                    else if OnlyMetadata opts then ResourceMetadataList []
                    else if InjectEvents opts then BytesWithEventsList []
                    else BytesList []);
          query = gorm_Where (WhereMap (gvrKeyMap s)) (gorm_Model_Resource (db s))
      in case applyListOptionsToResourceQuery env (db s) query opts of
           Inl err \<Rightarrow> Inl err
         | Inr (offset, amount, query') \<Rightarrow> Inr (offset, amount, query', result))"

subsection \<open>List\<close>

text \<open>\<^verbatim>\<open>strconv.FormatInt(i, 10)\<close> of an \<^verbatim>\<open>int64\<close>.\<close>

definition digit_char :: "nat \<Rightarrow> char" where
  "digit_char d = (''0123456789'' ! d)"

fun decimal :: "nat \<Rightarrow> string" where
  "decimal n = (if n < 10 then [digit_char n] else decimal (n div 10) @ [digit_char (n mod 10)])"

definition FormatInt :: "int64 \<Rightarrow> string" where
  "FormatInt i = (if sint i < 0 then CHR ''-'' # decimal (nat (- sint i)) else decimal (nat (sint i)))"

text \<open>
  The list object the caller passes in. \<^verbatim>\<open>meta.ListAccessor\<close> reads the first three
  forms; \<^verbatim>\<open>meta.GetItemsPtr\<close> fails on the third, which has no \<^verbatim>\<open>Items\<close>. The
  elements of a typed list are typed objects with object metadata.
\<close>

record list_fields =
  list_APIVersion :: string
  list_Continue :: string
  list_RemainingItemCount :: "int64 option"
  list_Items :: "runtime_Object list"

datatype list_object =
    UnstructuredList list_fields
  | TypedList list_fields
  | ListWithoutItems list_fields
  | NotAList string

definition ListAccessor :: "list_object \<Rightarrow> go_error + list_fields" where
  "ListAccessor lo =
     (case lo of
        UnstructuredList f \<Rightarrow> Inr f
      | TypedList f \<Rightarrow> Inr f
      | ListWithoutItems f \<Rightarrow> Inr f
      | NotAList k \<Rightarrow> Inl (ErrorString ''object does not implement the List interfaces''))"

definition with_fields :: "list_object \<Rightarrow> list_fields \<Rightarrow> list_object" where
  "with_fields lo f =
     (case lo of
        UnstructuredList old \<Rightarrow> UnstructuredList f
      | TypedList old \<Rightarrow> TypedList f
      | ListWithoutItems old \<Rightarrow> ListWithoutItems f
      | NotAList k \<Rightarrow> NotAList k)"

text \<open>The two writes to the list's metadata: the continue token and the remaining count.\<close>

definition set_list_meta :: "ListOptions \<Rightarrow> int64 \<Rightarrow> int64 option \<Rightarrow> nat \<Rightarrow> list_fields \<Rightarrow> list_fields" where
  "set_list_meta opts offset amount n f =
     (let f1 = (if WithContinue opts = Some True \<and> (of_nat n :: int64) = Limit opts
                then f\<lparr>list_Continue := FormatInt (offset + Limit opts)\<rparr> else f)
      in case amount of
           None \<Rightarrow> f1
         | Some a \<Rightarrow> f1\<lparr>list_RemainingItemCount := Some (a - offset - of_nat n)\<rparr>)"

text \<open>Setting one key of a Go map held as an association list.\<close>

fun map_set :: "string \<Rightarrow> string \<Rightarrow> (string \<times> string) list \<Rightarrow> (string \<times> string) list" where
  "map_set k v [] = [(k, v)]"
| "map_set k v ((k', v') # rest) = (if k' = k then (k, v) # rest else (k', v') # map_set k v rest)"

text \<open>The body of \<^verbatim>\<open>if events := object.GetEvents(); events != nil\<close>.\<close>

definition inject_events :: "storage_env \<Rightarrow> Event list \<Rightarrow> runtime_Object \<Rightarrow> runtime_Object" where
  "inject_events env events obj =
     (case obj of
        Opaque k \<Rightarrow> obj
      | Structured x \<Rightarrow>
          (let annos = (case meta_Annotations (obj_Meta x) of None \<Rightarrow> [] | Some a \<Rightarrow> a)
           in case json_Marshal_Events env events of
                Inl err \<Rightarrow> obj
              | Inr data \<Rightarrow>
                  Structured (x\<lparr>obj_Meta := (obj_Meta x)\<lparr>meta_Annotations :=
                     Some (map_set (ShadowAnnotationEvents env) data annos)\<rparr>\<rparr>))
      | Unstructured x \<Rightarrow>
          (let annos = (case meta_Annotations (obj_Meta x) of None \<Rightarrow> [] | Some a \<Rightarrow> a)
           in case json_Marshal_Events env events of
                Inl err \<Rightarrow> obj
              | Inr data \<Rightarrow>
                  Unstructured (x\<lparr>obj_Meta := (obj_Meta x)\<lparr>meta_Annotations :=
                     Some (map_set (ShadowAnnotationEvents env) data annos)\<rparr>\<rparr>)))"

text \<open>
  The loop over the objects when the list object is an \<^verbatim>\<open>*unstructured.UnstructuredList\<close>:
  \<open>acc\<close> is \<^verbatim>\<open>unstructuredList.Items\<close>, which an error leaves as far as it was filled.
\<close>

definition complete_unstructured :: "string \<Rightarrow> Object \<Rightarrow> api_object \<Rightarrow> api_object" where
  "complete_unstructured version object u =
     (if GroupVersionKind_Empty u then
        (let u1 = (if version \<noteq> '''' then u\<lparr>obj_APIVersion := version\<rparr> else u)
         in if \<not> ResourceType_Empty (GetResourceType object)
            then u1\<lparr>obj_Kind := rt_Kind (GetResourceType object)\<rparr> else u1)
      else u)"

fun unstructured_items :: "storage_env \<Rightarrow> string \<Rightarrow> Object list \<Rightarrow> runtime_Object list \<Rightarrow> runtime_Object list \<times> go_error option" where
  "unstructured_items env version [] acc = (acc, None)"
| "unstructured_items env version (object # rest) acc =
     (case ConvertTo env object IntoUnstructured of
        Inl err \<Rightarrow> (acc, Some err)
      | Inr obj \<Rightarrow>
          (case obj of
             Unstructured u \<Rightarrow>
               unstructured_items env version rest (acc @ [Unstructured (complete_unstructured version object u)])
           | _ \<Rightarrow> (acc, Some (ErrorString ''the converted object is not *unstructured.Unstructured''))))"

text \<open>
  The loop over the objects for a typed list: the slice is filled element by element
  and set on the list only after the loop. Storing a converted object that is not of the
  slice's element type makes \<^verbatim>\<open>reflect\<close> panic.
\<close>

fun typed_items :: "storage_env \<Rightarrow> Object list \<Rightarrow> (go_error + runtime_Object list) outcome" where
  "typed_items env [] = Returned (Inr [])"
| "typed_items env (object # rest) =
     (case ConvertTo env object IntoStructured of
        Inl err \<Rightarrow> Returned (Inl err)
      | Inr obj \<Rightarrow>
          (let obj' = (case GetEvents env object of
                         None \<Rightarrow> obj
                       | Some events \<Rightarrow> inject_events env events obj)
           in case obj' of
                Structured x \<Rightarrow>
                  (case typed_items env rest of
                     Returned (Inr xs) \<Rightarrow> Returned (Inr (obj' # xs))
                   | other \<Rightarrow> other)
              | _ \<Rightarrow> Panicked ''reflect.Set: value is not assignable to the element type''))"

text \<open>What \<^verbatim>\<open>List\<close> does with the objects of the result, from \<^verbatim>\<open>meta.ListAccessor\<close> on.\<close>

definition List_materialize :: "storage_env \<Rightarrow> list_object \<Rightarrow> ListOptions \<Rightarrow> int64 \<Rightarrow> int64 option \<Rightarrow> Object list \<Rightarrow> (list_object \<times> go_error option) outcome" where
  "List_materialize env listObject opts offset amount objects =
     (case ListAccessor listObject of
        Inl err \<Rightarrow> Returned (listObject, Some err)
      | Inr f0 \<Rightarrow>
          (let f = set_list_meta opts offset amount (length objects) f0
           in if objects = [] then Returned (with_fields listObject f, None)
              else case listObject of
                UnstructuredList old \<Rightarrow>
                  (case unstructured_items env (list_APIVersion f) objects [] of
                     (items, err) \<Rightarrow> Returned (UnstructuredList (f\<lparr>list_Items := items\<rparr>), err))
              | TypedList old \<Rightarrow>
                  (case typed_items env objects of
                     Panicked msg \<Rightarrow> Panicked msg
                   | Returned (Inl err) \<Rightarrow> Returned (TypedList f, Some err)
                   | Returned (Inr filled) \<Rightarrow> Returned (TypedList (f\<lparr>list_Items := filled\<rparr>), None))
              | other \<Rightarrow> Returned (with_fields listObject f, Some (ErrorString ''need ptr to slice''))))"

text \<open>\<^verbatim>\<open>ResourceStorage.List\<close>: the list object as the call leaves it and the error
  returned, or the panic.\<close>

definition List :: "storage_env \<Rightarrow> ResourceStorage \<Rightarrow> list_object \<Rightarrow> ListOptions \<Rightarrow> (list_object \<times> go_error option) outcome" where
  "List env s listObject opts =
     (case genListObjectsQuery env s opts of
        Inl err \<Rightarrow> Returned (listObject, Some err)
      | Inr (offset, amount, query, result) \<Rightarrow>
          (case From env result query of
             Panicked msg \<Rightarrow> Panicked msg
           | Returned (Inl err) \<Rightarrow>
               Returned (listObject, Some (InterpretDBError env (GroupResource_String (groupResource s)) err))
           | Returned (Inr result') \<Rightarrow>
               List_materialize env listObject opts offset amount (Items result')))"

text \<open>A call surfaces an error to its caller when it returns with a non-nil error.\<close>

definition returns_error :: "(list_object \<times> go_error option) outcome \<Rightarrow> bool" where
  "returns_error x = (case x of Returned (lo, Some err) \<Rightarrow> True | _ \<Rightarrow> False)"

subsection \<open>A small database and codec for concrete runs\<close>

text \<open>
  A codec whose encoding of an object is its content and whose decoding fills in only
  the name; an events column that, when not empty, is a map with the single entry
  \<open>uid-1\<close>; a database that returns the given rows for every query; a translator that
  applies the owner function and hands back the given offset and amount.
\<close>

definition demo_event :: "bytes \<Rightarrow> Event" where
  "demo_event b =
     \<lparr>event_UID = ''uid-1'', event_Namespace = ''default'', event_Name = ''ev'',
      event_ResourceVersion = ''1'', event_InvolvedObjectUID = ''u'', event_Message = b\<rparr>"

definition named_meta :: "string \<Rightarrow> ObjectMeta" where
  "named_meta n = empty_ObjectMeta\<lparr>meta_Name := n\<rparr>"

text \<open>
  In concrete runs the library's \<^verbatim>\<open>datatypes.JSONMap.GormValue\<close> binds the JSON text
  of the map to one placeholder, as it does for every dialect but MySQL:
  \<open>null\<close> for the nil map, the object with the map's entries otherwise.
\<close>

fun encode_entries :: "(string \<times> bytes) list \<Rightarrow> string" where
  "encode_entries [] = ''''"
| "encode_entries [(k, v)] = [CHR 0x22] @ k @ [CHR 0x22] @ '':'' @ v"
| "encode_entries ((k, v) # rest) = [CHR 0x22] @ k @ [CHR 0x22] @ '':'' @ v @ '','' @ encode_entries rest"

definition demo_JSONMap_GormValue :: "JSONMap \<Rightarrow> clause_Expr" where
  "demo_JSONMap_GormValue m =
     gorm_Expr ''?'' [case m of None \<Rightarrow> ''null'' | Some kv \<Rightarrow> ''{'' @ encode_entries kv @ ''}'']"

definition demo_event_env :: event_env where
  "demo_event_env =
     \<lparr>event_codec_Encode = (\<lambda>event. Inr (event_Message event)),
      JSONUpdate = (\<lambda>column key v. gorm_Expr ''JSON_SET(?, ?, ?)'' [column, key, v])\<rparr>"

definition demo_env :: "db_row list \<Rightarrow> int64 \<Rightarrow> int64 option \<Rightarrow> storage_env" where
  "demo_env rows offset amount =
     \<lparr>codec_Encode = (\<lambda>obj. case obj of Structured x \<Rightarrow> Inr (obj_Content x)
                               | Unstructured x \<Rightarrow> Inr (obj_Content x)
                               | Opaque k \<Rightarrow> Inl (ErrorString ''no encoder'')),
      codec_Decode = (\<lambda>b t. case t of
                        IntoUnstructured \<Rightarrow> Inr (Unstructured (empty_api_object\<lparr>obj_Meta := named_meta b\<rparr>))
                      | IntoStructured \<Rightarrow> Inr (Structured (empty_api_object\<lparr>obj_Meta := named_meta b\<rparr>))),
      json_Unmarshal_ObjectMeta = (\<lambda>b. Inr (named_meta b)),
      json_Unmarshal_map = (\<lambda>b. Inr (named_meta b)),
      json_Unmarshal_RawMessages =
        (\<lambda>b. if b = '''' then Inl (ErrorString ''unexpected end of JSON input'')
              else Inr [(''uid-1'', b)]),
      codec_Decode_Event = (\<lambda>b. Inr (demo_event b)),
      json_Marshal_Events = (\<lambda>events. Inr (''['' @ concat (map event_Message events) @ '']'')),
      ShadowAnnotationEvents = ''shadow.clusterpedia.io/events'',
      db_Find = (\<lambda>q. Inr rows),
      applyListOptionsToQuery =
        (\<lambda>q opts f. case f q opts of Inl err \<Rightarrow> Inl err | Inr q' \<Rightarrow> Inr (offset, amount, q')),
      buildOwnerQueryByUID = (\<lambda>d cluster uid seniority. OwnerString uid),
      buildOwnerQueryByName = (\<lambda>d cluster namespaces gr name seniority. OwnerSubquery name),
      InterpretDBError = (\<lambda>gr err. err),
      InterpretResourceDBError = (\<lambda>cluster name err. err),
      datatypes_JSONMap_GormValue = demo_JSONMap_GormValue\<rparr>"

definition demo_db :: "string \<Rightarrow> gorm_DB" where
  "demo_db dialect =
     \<lparr>Dialector_Name = dialect, Statement_Table = '''', Statement_Selects = [],
      Statement_Wheres = [], Statement_Orders = [], Statement_Limit = None,
      Statement_Offset = None\<rparr>"

definition demo_storage :: "string \<Rightarrow> ResourceStorage" where
  "demo_storage dialect =
     \<lparr>groupResource = ('''', ''pods''), db = demo_db dialect,
      config_StorageResource = \<lparr>gvr_Group = '''', gvr_Version = ''v1'', gvr_Resource = ''pods''\<rparr>\<rparr>"

definition demo_options :: ListOptions where
  "demo_options =
     \<lparr>ClusterNames = [], Namespaces = [], OwnerUID = '''', OwnerName = '''',
      OwnerGroupResource = ('''', ''''), OwnerSeniority = 0, OnlyMetadata = False,
      InjectEvents = False, WithContinue = None, Limit = 0\<rparr>"

definition demo_row :: db_row where
  "demo_row =
     \<lparr>col_group = '''', col_version = ''v1'', col_resource = ''pods'', col_kind = ''Pod'',
      col_metadata = ''pod-1'', col_object = ''pod-1'', col_events = ''started''\<rparr>"

definition empty_list_fields :: list_fields where
  "empty_list_fields =
     \<lparr>list_APIVersion = ''v1'', list_Continue = '''', list_RemainingItemCount = None, list_Items = []\<rparr>"

definition demo_pod :: api_object where
  "demo_pod =
     \<lparr>obj_APIVersion = ''v1'', obj_Kind = ''Pod'',
      obj_Meta = empty_ObjectMeta\<lparr>meta_Name := ''pod-1'', meta_Namespace := ''default'',
                   meta_UID := ''u2'', meta_ResourceVersion := ''8'', meta_CreationTimestamp := 50\<rparr>,
      obj_Content = ''pod-1-v8''\<rparr>"

definition stored_pod :: Resource where
  "stored_pod =
     \<lparr>res_ID = 1, res_Group = '''', res_Version = ''v1'', res_Resource = ''pods'', res_Kind = ''Pod'',
      res_Cluster = ''c1'', res_Namespace = ''default'', res_Name = ''pod-1'', res_OwnerUID = ''o1'',
      res_UID = ''u1'', res_ResourceVersion = ''7'', res_Object = ''pod-1-v7'', res_Events = None,
      res_EventResourceVersions = None, res_CreatedAt = 40, res_SyncedAt = 41,
      res_DeletedAt = Some 45\<rparr>"

text \<open>The same, with a database that fails every query with the columns it was asked to select.\<close>

definition echo_env :: storage_env where
  "echo_env = (demo_env [] 0 None)\<lparr>db_Find := (\<lambda>q. Inl (ErrorString (concat (Statement_Selects q))))\<rparr>"

text \<open>A request for one page of one row with a continue token, and the list it leaves.\<close>

definition paged_options :: ListOptions where
  "paged_options = demo_options\<lparr>WithContinue := Some True, Limit := 1\<rparr>"

definition paged_result :: list_fields where
  "paged_result =
     \<lparr>list_APIVersion = ''v1'', list_Continue = ''5'', list_RemainingItemCount = Some (- 2),
      list_Items = [Structured (empty_api_object\<lparr>obj_Meta := named_meta ''pod-1''\<rparr>)]\<rparr>"

section \<open>Properties of the reflector\<close>

subsection \<open>What the list phase keeps and what it sets\<close>

lemma list_attempt_keeps:
  "list_attempt env r w = (r1, resp, w1) \<Longrightarrow>
     paginatedResult r1 = paginatedResult r \<and> lastSyncResourceVersion r1 = lastSyncResourceVersion r"
  by (auto simp: list_attempt_def Let_def setIsLastSyncResourceVersionUnavailable_def
           split: prod.splits if_splits)

lemma list_finish_paginated:
  "list_finish env rv (r1, resp, w1) = (r', w', res) \<Longrightarrow>
     paginatedResult r' = (paginatedResult r1 \<or> (rv = ''0'' \<and> resp_err resp = None \<and> resp_paginated resp))"
  by (auto simp: list_finish_def Let_def setIsLastSyncResourceVersionUnavailable_def
                 setLastSyncResourceVersion_def
           split: prod.splits if_splits option.splits)

lemma list_finish_success_flag:
  "list_finish env rv (r1, resp, w1) = (r', w', res) \<Longrightarrow> resp_err resp = None \<Longrightarrow>
     \<not> isLastSyncResourceVersionUnavailable r'"
  by (auto simp: list_finish_def Let_def setIsLastSyncResourceVersionUnavailable_def
                 setLastSyncResourceVersion_def
           split: prod.splits if_splits option.splits)

lemma list_finish_None:
  "list_finish env rv (r1, resp, w1) = (r', w', None) \<Longrightarrow> resp_err resp = None"
  by (auto simp: list_finish_def Let_def 
           split: prod.splits if_splits option.splits)

text \<open>
  C3, as the claim states it, fails: an expired list does not clear
  \<open>lastSyncResourceVersion\<close>. A reflector that last saw version \<open>''5''\<close> and whose list
  and retry both fail with an expired error ends with the flag set and with
  \<open>lastSyncResourceVersion\<close> still \<open>''5''\<close>; only the resource version of the retry's
  request is empty.
\<close>

theorem list_expired_keeps_lastSyncResourceVersion_counterexample:
  "isExpiredError (Some expired_error) \<and>
   lastSyncResourceVersion seen5 = ''5'' \<and>
   lastSyncResourceVersion (fst (list_attempt script_env seen5
       ([err_response expired_error, err_response expired_error], []))) = ''5'' \<and>
   Reflector_list script_env seen5 ([err_response expired_error, err_response expired_error], []) False =
     (seen5\<lparr>isLastSyncResourceVersionUnavailable := True\<rparr>,
      ([], [(False, 0, ''5''), (False, 0, '''')]),
      Some (Wrapped ''failed to list'' expired_error))"
  by (simp add: seen5_def fresh_Reflector_def script_env_def err_response_def expired_error_def
      Reflector_list_def list_attempt_def list_finish_def relistResourceVersion_def
      pager_PageSize_def setIsLastSyncResourceVersionUnavailable_def isExpiredError_def
      IsResourceExpired_def IsGone_def reasonAndCodeForError_def Let_def)

text \<open>
  C3, amended. When the first list request fails with an expired or too-large-resource-version
  error, the reflector sets \<open>isLastSyncResourceVersionUnavailable\<close>, leaves
  \<open>lastSyncResourceVersion\<close> as it is, and makes exactly one more request, with the same
  page size and the empty resource version; the outcome of the list phase is the outcome of
  that retry: when the retry fails too, the phase ends with its error, the flag still set
  and no further request. Every list phase that returns nil after listing has the flag
  cleared.
\<close>

theorem list_expired_retries_once:
  "(pager_List env w (StreamHandleForPaginatedList r)
        (pager_PageSize env r (relistResourceVersion r)) (relistResourceVersion r) = (resp1, w1) \<and>
    (isExpiredError (resp_err resp1) \<or> isTooLargeResourceVersionError (resp_err resp1)) \<and>
    pager_List env w1 (StreamHandleForPaginatedList r)
        (pager_PageSize env r (relistResourceVersion r)) '''' = (resp2, w2) \<and>
    Reflector_list env r w False = (r', w', res)
    \<longrightarrow>
      list_attempt env r w = (r\<lparr>isLastSyncResourceVersionUnavailable := True\<rparr>, resp2, w2) \<and>
      (case resp_err resp2 of
         Some e \<Rightarrow> r' = r\<lparr>isLastSyncResourceVersionUnavailable := True\<rparr> \<and> w' = w2 \<and>
                   res = Some (Wrapped ''failed to list'' e)
       | None \<Rightarrow> \<not> isLastSyncResourceVersionUnavailable r')) \<and>
   (Reflector_list env r w False = (r', w', None) \<longrightarrow> \<not> isLastSyncResourceVersionUnavailable r')"
proof (intro conjI impI)
  assume h: "pager_List env w (StreamHandleForPaginatedList r)
        (pager_PageSize env r (relistResourceVersion r)) (relistResourceVersion r) = (resp1, w1) \<and>
    (isExpiredError (resp_err resp1) \<or> isTooLargeResourceVersionError (resp_err resp1)) \<and>
    pager_List env w1 (StreamHandleForPaginatedList r)
        (pager_PageSize env r (relistResourceVersion r)) '''' = (resp2, w2) \<and>
    Reflector_list env r w False = (r', w', res)"
  show a: "list_attempt env r w = (r\<lparr>isLastSyncResourceVersionUnavailable := True\<rparr>, resp2, w2)"
    using h by (auto simp: list_attempt_def Let_def setIsLastSyncResourceVersionUnavailable_def
        relistResourceVersion_def)
  have f: "list_finish env (relistResourceVersion r)
             (r\<lparr>isLastSyncResourceVersionUnavailable := True\<rparr>, resp2, w2) = (r', w', res)"
    using h a by (simp add: Reflector_list_def)
  show "case resp_err resp2 of
         Some e \<Rightarrow> r' = r\<lparr>isLastSyncResourceVersionUnavailable := True\<rparr> \<and> w' = w2 \<and>
                   res = Some (Wrapped ''failed to list'' e)
       | None \<Rightarrow> \<not> isLastSyncResourceVersionUnavailable r'"
  proof (cases "resp_err resp2")
    case None
    then show ?thesis using list_finish_success_flag [OF f] by simp
  next
    case (Some e)
    then show ?thesis using f by (auto simp: list_finish_def)
  qed
next
  assume s: "Reflector_list env r w False = (r', w', None)"
  obtain r1 resp w1' where a: "list_attempt env r w = (r1, resp, w1')"
    by (cases "list_attempt env r w") auto
  have f: "list_finish env (relistResourceVersion r) (r1, resp, w1') = (r', w', None)"
    using s a by (simp add: Reflector_list_def)
  show "\<not> isLastSyncResourceVersionUnavailable r'"
    using list_finish_success_flag [OF f list_finish_None [OF f]] .
qed

theorem list_expired_retries_once_witness:
  "list_attempt script_env seen5 ([err_response expired_error, ok_response ''9'' False], []) =
     (seen5\<lparr>isLastSyncResourceVersionUnavailable := True\<rparr>, ok_response ''9'' False,
      ([], [(False, 0, ''5''), (False, 0, '''')])) \<and>
   Reflector_list script_env seen5 ([err_response expired_error, ok_response ''9'' False], []) False =
     (seen5\<lparr>lastSyncResourceVersion := ''9''\<rparr>, ([], [(False, 0, ''5''), (False, 0, '''')]), None) \<and>
   \<not> isLastSyncResourceVersionUnavailable (seen5\<lparr>lastSyncResourceVersion := ''9''\<rparr>)"
proof -
  let ?w = "([err_response expired_error, ok_response ''9'' False], []) :: script_world"
  let ?w1 = "([ok_response ''9'' False], [(False, 0, ''5'')]) :: script_world"
  let ?w2 = "([], [(False, 0, ''5''), (False, 0, '''')]) :: script_world"
  have rv: "relistResourceVersion seen5 = ''5''"
    by (simp add: seen5_def fresh_Reflector_def relistResourceVersion_def)
  have ps: "pager_PageSize script_env seen5 ''5'' = 0"
    by (simp add: seen5_def fresh_Reflector_def pager_PageSize_def script_env_def)
  have st: "StreamHandleForPaginatedList seen5 = False"
    by (simp add: seen5_def fresh_Reflector_def)
  have c1: "pager_List script_env ?w False 0 ''5'' = (err_response expired_error, ?w1)"
    by (simp add: script_env_def)
  have ex: "isExpiredError (resp_err (err_response expired_error))"
    by (simp add: err_response_def expired_error_def isExpiredError_def IsResourceExpired_def
        reasonAndCodeForError_def)
  have c2: "pager_List script_env ?w1 False 0 '''' = (ok_response ''9'' False, ?w2)"
    by (simp add: script_env_def)
  have run: "Reflector_list script_env seen5 ?w False =
     (seen5\<lparr>lastSyncResourceVersion := ''9''\<rparr>, ?w2, None)"
    by (simp add: seen5_def fresh_Reflector_def script_env_def err_response_def expired_error_def
      ok_response_def
      Reflector_list_def list_attempt_def list_finish_def relistResourceVersion_def
      pager_PageSize_def setIsLastSyncResourceVersionUnavailable_def isExpiredError_def
      setLastSyncResourceVersion_def
      IsResourceExpired_def IsGone_def reasonAndCodeForError_def Let_def)
  have ok: "resp_err (ok_response ''9'' False) = None"
    by (simp add: ok_response_def)
  from list_expired_retries_once [of script_env ?w seen5 "err_response expired_error" ?w1
      "ok_response ''9'' False" ?w2 "seen5\<lparr>lastSyncResourceVersion := ''9''\<rparr>" ?w2 None]
  show ?thesis using rv ps st c1 ex c2 run ok by simp
qed

text \<open>
  The flag after a list phase. \<open>paginatedResult\<close> after a list phase that ran to its
  end is true exactly when it was true before, or the options built on entry carried
  resource version \<open>''0''\<close> and the last pager call came back without error and
  paginated; that call is the retry when the first one failed with an expired or
  too-large-resource-version error. A phase whose options on entry carried any other
  resource version leaves the flag as it was, and no phase resets it to false.
\<close>

theorem paginatedResult_after_list:
  "(list_attempt env r w = (r1, resp, w1) \<and> Reflector_list env r w False = (r', w', res) \<longrightarrow>
      paginatedResult r' =
        (paginatedResult r \<or>
         (relistResourceVersion r = ''0'' \<and> resp_err resp = None \<and> resp_paginated resp))) \<and>
   (Reflector_list env r w False = (r', w', res) \<and> relistResourceVersion r \<noteq> ''0'' \<longrightarrow>
      paginatedResult r' = paginatedResult r) \<and>
   (Reflector_list env r w False = (r', w', res) \<and> paginatedResult r \<longrightarrow> paginatedResult r')"
proof -
  obtain r1' resp' w1' where a: "list_attempt env r w = (r1', resp', w1')"
    by (cases "list_attempt env r w") auto
  have k: "paginatedResult r1' = paginatedResult r"
    using list_attempt_keeps [OF a] by simp
  have f: "Reflector_list env r w False = (r', w', res) \<Longrightarrow>
      paginatedResult r' =
        (paginatedResult r \<or>
         (relistResourceVersion r = ''0'' \<and> resp_err resp' = None \<and> resp_paginated resp'))"
    using list_finish_paginated [of env "relistResourceVersion r" r1' resp' w1' r' w' res] k a
    by (simp add: Reflector_list_def)
  show ?thesis using f a by auto
qed

theorem paginatedResult_after_list_witness:
  "paginatedResult (fst (Reflector_list script_env fresh_Reflector ([ok_response ''9'' True], []) False)) \<and>
   \<not> paginatedResult (fst (Reflector_list script_env seen5 ([ok_response ''9'' True], []) False))"
proof -
  let ?w = "([ok_response ''9'' True], []) :: script_world"
  let ?X = "Reflector_list script_env fresh_Reflector ?w False"
  let ?Y = "Reflector_list script_env seen5 ?w False"
  have a: "list_attempt script_env fresh_Reflector ?w =
      (fresh_Reflector, ok_response ''9'' True, ([], [(False, 500, ''0'')]))"
    by (simp add: fresh_Reflector_def script_env_def ok_response_def list_attempt_def
        relistResourceVersion_def pager_PageSize_def isExpiredError_def
        isTooLargeResourceVersionError_def HasStatusCause_def IsTimeout_def
        IsResourceExpired_def IsGone_def reasonAndCodeForError_def Let_def)
  have rv: "relistResourceVersion fresh_Reflector = ''0''" "relistResourceVersion seen5 \<noteq> ''0''"
    by (simp_all add: seen5_def fresh_Reflector_def relistResourceVersion_def)
  have p: "resp_err (ok_response ''9'' True) = None" "resp_paginated (ok_response ''9'' True)"
     "\<not> paginatedResult seen5"
    by (simp_all add: ok_response_def seen5_def fresh_Reflector_def)
  have x: "?X = (fst ?X, fst (snd ?X), snd (snd ?X))" "?Y = (fst ?Y, fst (snd ?Y), snd (snd ?Y))"
    by simp_all
  from paginatedResult_after_list [of script_env fresh_Reflector ?w fresh_Reflector
      "ok_response ''9'' True" "([], [(False, 500, ''0'')])" "fst ?X" "fst (snd ?X)" "snd (snd ?X)"]
    paginatedResult_after_list [of script_env seen5 ?w seen5
      "ok_response ''9'' True" "([], [(False, 0, ''5'')])" "fst ?Y" "fst (snd ?Y)" "snd (snd ?Y)"]
  show ?thesis using a rv p by simp
qed

text \<open>
  C4. The flag is meant to record that a list request made from resource version
  \<open>''0''\<close> came back paginated, and a request made from any other resource version
  must not set it: the comment above the test says so, since a request forced to
  the empty resource version is paginated whether or not the server has a watch cache.
  The code tests the resource version of the options built on entry against the
  paginated result of the last request. On a reflector that never synced, whose first
  request (from \<open>''0''\<close>) fails with an expired error and whose retry (from the empty
  resource version) comes back paginated, the flag is set by the result of the retry.
\<close>

theorem list_retry_sets_paginatedResult:
  "relistResourceVersion fresh_Reflector = ''0'' \<and>
   \<not> paginatedResult fresh_Reflector \<and>
   isExpiredError (resp_err (err_response expired_error)) \<and>
   Reflector_list script_env fresh_Reflector
       ([err_response expired_error, ok_response ''9'' True], []) False =
     (fresh_Reflector\<lparr>paginatedResult := True, lastSyncResourceVersion := ''9''\<rparr>,
      ([], [(False, 500, ''0''), (False, 500, '''')]), None)"
  by (simp add: fresh_Reflector_def script_env_def err_response_def ok_response_def expired_error_def
      Reflector_list_def list_attempt_def list_finish_def relistResourceVersion_def
      pager_PageSize_def setIsLastSyncResourceVersionUnavailable_def setLastSyncResourceVersion_def
      isExpiredError_def IsResourceExpired_def IsGone_def reasonAndCodeForError_def Let_def)

text \<open>
  C5. The resource version a (re)list starts from: empty when
  \<open>isLastSyncResourceVersionUnavailable\<close> is set; otherwise empty when no version was
  ever observed and pagination is forced; otherwise \<open>''0''\<close> when no version was ever
  observed; otherwise the last-seen version.
\<close>

theorem relistResourceVersion_cases:
  "(isLastSyncResourceVersionUnavailable r \<longrightarrow> relistResourceVersion r = '''') \<and>
   (\<not> isLastSyncResourceVersionUnavailable r \<and> lastSyncResourceVersion r = '''' \<and> ForcePaginatedList r
      \<longrightarrow> relistResourceVersion r = '''') \<and>
   (\<not> isLastSyncResourceVersionUnavailable r \<and> lastSyncResourceVersion r = '''' \<and> \<not> ForcePaginatedList r
      \<longrightarrow> relistResourceVersion r = ''0'') \<and>
   (\<not> isLastSyncResourceVersionUnavailable r \<and> lastSyncResourceVersion r \<noteq> ''''
      \<longrightarrow> relistResourceVersion r = lastSyncResourceVersion r)"
  by (simp add: relistResourceVersion_def)

theorem relistResourceVersion_cases_witness:
  "relistResourceVersion (fresh_Reflector\<lparr>lastSyncResourceVersion := ''7'',
       isLastSyncResourceVersionUnavailable := True\<rparr>) = '''' \<and>
   relistResourceVersion (fresh_Reflector\<lparr>ForcePaginatedList := True\<rparr>) = '''' \<and>
   relistResourceVersion fresh_Reflector = ''0'' \<and>
   relistResourceVersion (fresh_Reflector\<lparr>lastSyncResourceVersion := ''7''\<rparr>) = ''7''"
  using relistResourceVersion_cases [of "fresh_Reflector\<lparr>lastSyncResourceVersion := ''7'',
           isLastSyncResourceVersionUnavailable := True\<rparr>"]
        relistResourceVersion_cases [of "fresh_Reflector\<lparr>ForcePaginatedList := True\<rparr>"]
        relistResourceVersion_cases [of fresh_Reflector]
        relistResourceVersion_cases [of "fresh_Reflector\<lparr>lastSyncResourceVersion := ''7''\<rparr>"]
  by (simp add: fresh_Reflector_def)

section \<open>Properties of the resource storage\<close>

subsection \<open>Facts shared by the proofs\<close>

lemma matches_resourceKeyMap:
  "matches_key (resourceKeyMap s cluster namespace name) row =
     (res_Cluster row = cluster \<and> res_Group row = gvr_Group (config_StorageResource s) \<and>
      res_Version row = gvr_Version (config_StorageResource s) \<and>
      res_Resource row = gvr_Resource (config_StorageResource s) \<and>
      res_Namespace row = namespace \<and> res_Name row = name)"
  by (simp add: resourceKeyMap_def key_column_def)

lemma fold_updatedResource:
  "fold assign_column (updatedResource metaobj buffer) row =
     row\<lparr>res_OwnerUID := controller_UID metaobj, res_UID := meta_UID metaobj,
         res_ResourceVersion := meta_ResourceVersion metaobj, res_Object := buffer,
         res_CreatedAt := meta_CreationTimestamp metaobj,
         res_DeletedAt := (case meta_DeletionTimestamp metaobj of
                             None \<Rightarrow> res_DeletedAt row | Some deletedAt \<Rightarrow> Some deletedAt)\<rparr>"
  by (cases "meta_DeletionTimestamp metaobj") (simp_all add: updatedResource_def assign_column_def)

lemma set_list_meta_Continue:
  "WithContinue opts = Some True \<Longrightarrow> (of_nat n :: int64) = Limit opts \<Longrightarrow>
     list_Continue (set_list_meta opts offset amount n f) = FormatInt (offset + Limit opts)"
  by (simp add: set_list_meta_def Let_def split: option.splits)

lemma set_list_meta_Remaining:
  "list_RemainingItemCount (set_list_meta opts offset (Some a) n f) = Some (a - offset - of_nat n)"
  by (simp add: set_list_meta_def Let_def)

lemma List_materialize_fields:
  "ListAccessor lo = Inr f0 \<Longrightarrow>
   List_materialize env lo opts offset amount objects = Returned (lo', err) \<Longrightarrow>
     \<exists>items. ListAccessor lo' =
       Inr ((set_list_meta opts offset amount (length objects) f0)\<lparr>list_Items := items\<rparr>)"
proof (cases lo)
  case (UnstructuredList f)
  assume a: "ListAccessor lo = Inr f0"
    and r: "List_materialize env lo opts offset amount objects = Returned (lo', err)"
  show ?thesis
  proof (cases "objects = []")
    case True
    with a r UnstructuredList
    have "ListAccessor lo' = Inr ((set_list_meta opts offset amount (length objects) f0)
             \<lparr>list_Items := list_Items (set_list_meta opts offset amount (length objects) f0)\<rparr>)"
      by (auto simp: List_materialize_def ListAccessor_def with_fields_def Let_def)
    then show ?thesis by blast
  next
    case False
    with a r UnstructuredList show ?thesis
      by (auto simp: List_materialize_def ListAccessor_def Let_def split: prod.splits)
  qed
next
  case (TypedList f)
  assume a: "ListAccessor lo = Inr f0"
    and r: "List_materialize env lo opts offset amount objects = Returned (lo', err)"
  show ?thesis
  proof (cases "objects = []")
    case True
    with a r TypedList
    have "ListAccessor lo' = Inr ((set_list_meta opts offset amount (length objects) f0)
             \<lparr>list_Items := list_Items (set_list_meta opts offset amount (length objects) f0)\<rparr>)"
      by (auto simp: List_materialize_def ListAccessor_def with_fields_def Let_def)
    then show ?thesis by blast
  next
    case False
    with a r TypedList
    have "ListAccessor lo' = Inr ((set_list_meta opts offset amount (length objects) f0)
             \<lparr>list_Items := list_Items (set_list_meta opts offset amount (length objects) f0)\<rparr>)
        \<or> (\<exists>items. ListAccessor lo' = Inr ((set_list_meta opts offset amount (length objects) f0)
             \<lparr>list_Items := items\<rparr>))"
      by (auto simp: List_materialize_def ListAccessor_def Let_def
          split: outcome.splits sum.splits)
    then show ?thesis by blast
  qed
next
  case (ListWithoutItems f)
  assume a: "ListAccessor lo = Inr f0"
    and r: "List_materialize env lo opts offset amount objects = Returned (lo', err)"
  from a r ListWithoutItems
  have "ListAccessor lo' = Inr ((set_list_meta opts offset amount (length objects) f0)
             \<lparr>list_Items := list_Items (set_list_meta opts offset amount (length objects) f0)\<rparr>)"
    by (auto simp: List_materialize_def ListAccessor_def with_fields_def Let_def split: if_splits)
  then show ?thesis by blast
next
  case (NotAList k)
  assume a: "ListAccessor lo = Inr f0"
  with NotAList show ?thesis by (simp add: ListAccessor_def)
qed

lemma List_listed:
  "genListObjectsQuery env s opts = Inr (offset, amount, query, result) \<Longrightarrow>
   From env result query = Returned (Inr page) \<Longrightarrow>
     List env s listObject opts = List_materialize env listObject opts offset amount (Items page)"
  by (simp add: List_def)

lemma genListObjectsQuery_metadata:
  "OnlyMetadata opts \<Longrightarrow> genListObjectsQuery env s opts = Inr (offset, amount, query, result) \<Longrightarrow>
     result = (if InjectEvents opts then ResourceMetadataWithEventsList [] else ResourceMetadataList [])"
  by (auto simp: genListObjectsQuery_def Let_def split: sum.splits)

lemma echo_gen:
  "genListObjectsQuery echo_env (demo_storage dialect) (demo_options\<lparr>OnlyMetadata := True\<rparr>) =
     Inr (0, None,
          gorm_Where (WhereMap (gvrKeyMap (demo_storage dialect))) (gorm_Model_Resource (demo_db dialect)),
          ResourceMetadataList [])"
  by (simp add: genListObjectsQuery_def echo_env_def demo_env_def demo_options_def demo_storage_def
      applyListOptionsToResourceQuery_def applyOwnerToResourceQuery_def Let_def)

lemma set_list_meta_keeps:
  "list_APIVersion (set_list_meta opts offset amount n f) = list_APIVersion f \<and>
   list_Items (set_list_meta opts offset amount n f) = list_Items f"
  by (simp add: set_list_meta_def Let_def split: option.splits)

lemma complete_unstructured_meta:
  "obj_Meta (complete_unstructured version object u) = obj_Meta u"
  by (simp add: complete_unstructured_def Let_def)

lemma unstructured_items_origin:
  "unstructured_items env version objects acc = (items, err) \<Longrightarrow> item \<in> set items \<Longrightarrow>
     item \<in> set acc \<or>
     (\<exists>object\<in>set objects. \<exists>u. ConvertTo env object IntoUnstructured = Inr (Unstructured u) \<and>
        item = Unstructured (complete_unstructured version object u))"
proof (induction objects arbitrary: acc)
  case Nil
  then show ?case by simp
next
  case (Cons object rest)
  show ?case
  proof (cases "ConvertTo env object IntoUnstructured")
    case (Inl e)
    with Cons.prems show ?thesis by simp
  next
    case (Inr obj)
    show ?thesis
    proof (cases obj)
      case (Unstructured u)
      with Inr Cons.prems
      have "unstructured_items env version rest
              (acc @ [Unstructured (complete_unstructured version object u)]) = (items, err)"
        by simp
      from Cons.IH [OF this Cons.prems(2)] Inr Unstructured show ?thesis by auto
    next
      case (Structured x)
      with Inr Cons.prems show ?thesis by simp
    next
      case (Opaque k)
      with Inr Cons.prems show ?thesis by simp
    qed
  qed
qed

lemma demo_gen_events:
  "genListObjectsQuery (demo_env rows offset amount) (demo_storage dialect)
       (demo_options\<lparr>InjectEvents := True\<rparr>) =
     Inr (offset, amount,
          gorm_Where (WhereMap (gvrKeyMap (demo_storage dialect))) (gorm_Model_Resource (demo_db dialect)),
          BytesWithEventsList [])"
  by (simp add: genListObjectsQuery_def demo_env_def demo_options_def demo_storage_def
      applyListOptionsToResourceQuery_def applyOwnerToResourceQuery_def Let_def)

lemma demo_From_events:
  "From (demo_env [demo_row] offset amount) (BytesWithEventsList []) q =
     Returned (Inr (BytesWithEventsList [(''pod-1'', ''started'')]))"
  by (simp add: From_def demo_env_def demo_row_def)

lemma demo_List_unstructured:
  "List (demo_env [demo_row] 0 None) (demo_storage ''postgres'') (UnstructuredList empty_list_fields)
        (demo_options\<lparr>InjectEvents := True\<rparr>) =
     Returned (UnstructuredList (empty_list_fields\<lparr>list_Items :=
        [Unstructured (empty_api_object\<lparr>obj_APIVersion := ''v1'', obj_Meta := named_meta ''pod-1''\<rparr>)]\<rparr>),
        None)"
  unfolding List_listed [OF demo_gen_events demo_From_events]
  by (simp add: List_materialize_def
        ListAccessor_def Items_def set_list_meta_def demo_options_def empty_list_fields_def
        ConvertTo_def complete_unstructured_def GroupVersionKind_Empty_def ParseGroupVersion_def GetResourceType_def
        ResourceType_Empty_def Let_def demo_env_def empty_api_object_def)

subsection \<open>Listing\<close>

text \<open>
  C1. A list with \<open>OnlyMetadata\<close> and \<open>InjectEvents\<close> over a row whose events column
  holds one event: on the code, the object returned has its metadata filled in and no
  annotation at all. \<^verbatim>\<open>ResourceMetadataWithEventsList\<close> is declared as a slice of
  \<^verbatim>\<open>ResourceMetadata\<close>, whose \<^verbatim>\<open>GetEvents\<close> is nil, although the events column
  is selected and \<^verbatim>\<open>ResourceMetadataWithEvents.GetEvents\<close> would decode the one event.
  The same row listed with \<open>InjectEvents\<close> alone carries the annotation with the
  one-element array.
\<close>

theorem List_metadata_with_events_omits_annotation:
  "GetEvents (demo_env [demo_row] 0 None)
      (ResourceMetadataWithEvents_Object (scan_ResourceMetadata demo_row) (col_events demo_row)) =
     Some [demo_event ''started''] \<and>
   List (demo_env [demo_row] 0 None) (demo_storage ''sqlite'') (TypedList empty_list_fields)
        (demo_options\<lparr>OnlyMetadata := True, InjectEvents := True\<rparr>) =
     Returned (TypedList (empty_list_fields\<lparr>list_Items :=
        [Structured (empty_api_object\<lparr>obj_Meta := named_meta ''pod-1''\<rparr>)]\<rparr>), None) \<and>
   meta_Annotations (named_meta ''pod-1'') = None \<and>
   List (demo_env [demo_row] 0 None) (demo_storage ''sqlite'') (TypedList empty_list_fields)
        (demo_options\<lparr>InjectEvents := True\<rparr>) =
     Returned (TypedList (empty_list_fields\<lparr>list_Items :=
        [Structured (empty_api_object\<lparr>obj_Meta := (named_meta ''pod-1'')\<lparr>meta_Annotations :=
           Some [(''shadow.clusterpedia.io/events'', ''[started]'')]\<rparr>\<rparr>)]\<rparr>), None)"
proof -
  have g: "GetEvents (demo_env [demo_row] 0 None)
      (ResourceMetadataWithEvents_Object (scan_ResourceMetadata demo_row) (col_events demo_row)) =
     Some [demo_event ''started'']"
    by (simp add: GetEvents_def EventsBytes_Decode_def demo_env_def demo_row_def)
  have q: "genListObjectsQuery (demo_env [demo_row] 0 None) (demo_storage ''sqlite'')
       (demo_options\<lparr>OnlyMetadata := True, InjectEvents := True\<rparr>) =
     Inr (0, None,
          gorm_Where (WhereMap (gvrKeyMap (demo_storage ''sqlite''))) (gorm_Model_Resource (demo_db ''sqlite'')),
          ResourceMetadataWithEventsList [])"
    by (simp add: genListObjectsQuery_def demo_env_def demo_options_def demo_storage_def
      applyListOptionsToResourceQuery_def applyOwnerToResourceQuery_def Let_def)
  have f: "From (demo_env [demo_row] 0 None) (ResourceMetadataWithEventsList [])
         (gorm_Where (WhereMap (gvrKeyMap (demo_storage ''sqlite''))) (gorm_Model_Resource (demo_db ''sqlite''))) =
     Returned (Inr (ResourceMetadataWithEventsList [scan_ResourceMetadata demo_row]))"
    by (simp add: From_def ResourceMetadataWithEventsList_Select_def gorm_Where_def
        gorm_Model_Resource_def demo_db_def demo_env_def gorm_Select_def)
  have l1: "List (demo_env [demo_row] 0 None) (demo_storage ''sqlite'') (TypedList empty_list_fields)
        (demo_options\<lparr>OnlyMetadata := True, InjectEvents := True\<rparr>) =
     Returned (TypedList (empty_list_fields\<lparr>list_Items :=
        [Structured (empty_api_object\<lparr>obj_Meta := named_meta ''pod-1''\<rparr>)]\<rparr>), None)"
    unfolding List_listed [OF q f]
    by (simp add: List_materialize_def ListAccessor_def Items_def
         set_list_meta_def demo_options_def ConvertTo_def ResourceMetadata_ConvertTo_def
         GetEvents_def Let_def demo_env_def scan_ResourceMetadata_def demo_row_def)
  have l2: "List (demo_env [demo_row] 0 None) (demo_storage ''sqlite'') (TypedList empty_list_fields)
        (demo_options\<lparr>InjectEvents := True\<rparr>) =
     Returned (TypedList (empty_list_fields\<lparr>list_Items :=
        [Structured (empty_api_object\<lparr>obj_Meta := (named_meta ''pod-1'')\<lparr>meta_Annotations :=
           Some [(''shadow.clusterpedia.io/events'', ''[started]'')]\<rparr>\<rparr>)]\<rparr>), None)"
    unfolding List_listed [OF demo_gen_events demo_From_events]
    by (simp add: List_materialize_def
         ListAccessor_def Items_def set_list_meta_def demo_options_def ConvertTo_def
         GetEvents_def EventsBytes_Decode_def inject_events_def Let_def
         demo_env_def demo_event_def named_meta_def empty_ObjectMeta_def empty_api_object_def)
  have a: "meta_Annotations (named_meta ''pod-1'') = None"
    by (simp add: named_meta_def empty_ObjectMeta_def)
  show ?thesis using g l1 a l2 by simp
qed

text \<open>
  C7. When \<^verbatim>\<open>List\<close> has its page and returns, the list it leaves has, if
  \<open>WithContinue\<close> is set and the page holds exactly \<open>Limit\<close> objects, the decimal of
  \<open>offset + Limit\<close> as its continue token, and, if the translator gave an amount, exactly
  \<open>amount - offset - len(page)\<close> as its remaining count (otherwise the count it had).
  The arithmetic is that of \<^verbatim>\<open>int64\<close>; the count is negative when the offset lies past
  the amount.
\<close>

theorem List_sets_continue_and_remaining:
  "genListObjectsQuery env s opts = Inr (offset, amount, query, result) \<and>
   From env result query = Returned (Inr page) \<and>
   ListAccessor listObject = Inr f0 \<and>
   List env s listObject opts = Returned (listObject', err)
   \<longrightarrow>
   (\<exists>f'. ListAccessor listObject' = Inr f' \<and>
      (WithContinue opts = Some True \<and> (of_nat (length (Items page)) :: int64) = Limit opts
         \<longrightarrow> list_Continue f' = FormatInt (offset + Limit opts)) \<and>
      (case amount of
         None \<Rightarrow> list_RemainingItemCount f' = list_RemainingItemCount f0
       | Some a \<Rightarrow> list_RemainingItemCount f' = Some (a - offset - of_nat (length (Items page)))))"
proof (intro impI)
  assume h: "genListObjectsQuery env s opts = Inr (offset, amount, query, result) \<and>
   From env result query = Returned (Inr page) \<and>
   ListAccessor listObject = Inr f0 \<and>
   List env s listObject opts = Returned (listObject', err)"
  then have m: "List_materialize env listObject opts offset amount (Items page) = Returned (listObject', err)"
    using List_listed [of env s opts offset amount query result page listObject] by simp
  from h have a: "ListAccessor listObject = Inr f0" by simp
  from List_materialize_fields [OF a m]
  obtain items where f: "ListAccessor listObject' =
       Inr ((set_list_meta opts offset amount (length (Items page)) f0)\<lparr>list_Items := items\<rparr>)"
    by blast
  show "\<exists>f'. ListAccessor listObject' = Inr f' \<and>
      (WithContinue opts = Some True \<and> (of_nat (length (Items page)) :: int64) = Limit opts
         \<longrightarrow> list_Continue f' = FormatInt (offset + Limit opts)) \<and>
      (case amount of
         None \<Rightarrow> list_RemainingItemCount f' = list_RemainingItemCount f0
       | Some a \<Rightarrow> list_RemainingItemCount f' = Some (a - offset - of_nat (length (Items page))))"
  proof (intro exI conjI impI)
    show "ListAccessor listObject' =
       Inr ((set_list_meta opts offset amount (length (Items page)) f0)\<lparr>list_Items := items\<rparr>)"
      by (rule f)
  next
    assume "WithContinue opts = Some True \<and> (of_nat (length (Items page)) :: int64) = Limit opts"
    then show "list_Continue ((set_list_meta opts offset amount (length (Items page)) f0)\<lparr>list_Items := items\<rparr>)
        = FormatInt (offset + Limit opts)"
      by (simp add: set_list_meta_Continue)
  next
    show "case amount of
         None \<Rightarrow> list_RemainingItemCount ((set_list_meta opts offset amount (length (Items page)) f0)\<lparr>list_Items := items\<rparr>) = list_RemainingItemCount f0
       | Some a \<Rightarrow> list_RemainingItemCount ((set_list_meta opts offset amount (length (Items page)) f0)\<lparr>list_Items := items\<rparr>) = Some (a - offset - of_nat (length (Items page)))"
      by (cases amount) (simp_all add: set_list_meta_def Let_def)
  qed
qed

theorem List_sets_continue_and_remaining_witness:
  "List (demo_env [demo_row] 4 (Some 3)) (demo_storage ''sqlite'') (TypedList empty_list_fields)
        paged_options = Returned (TypedList paged_result, None) \<and>
   list_Continue paged_result = FormatInt (4 + 1) \<and>
   FormatInt (4 + 1) = ''5'' \<and>
   list_RemainingItemCount paged_result = Some (3 - 4 - 1) \<and>
   sint (3 - 4 - 1 :: int64) = - 2"
proof -
  let ?env = "demo_env [demo_row] 4 (Some 3)"
  let ?q = "gorm_Where (WhereMap (gvrKeyMap (demo_storage ''sqlite''))) (gorm_Model_Resource (demo_db ''sqlite''))"
  have q: "genListObjectsQuery ?env (demo_storage ''sqlite'') paged_options =
     Inr (4, Some 3, ?q, BytesList [])"
    by (simp add: genListObjectsQuery_def demo_env_def demo_options_def demo_storage_def
      applyListOptionsToResourceQuery_def applyOwnerToResourceQuery_def Let_def paged_options_def)
  have f: "From ?env (BytesList []) ?q = Returned (Inr (BytesList [''pod-1'']))"
    by (simp add: From_def demo_env_def demo_row_def)
  have d: "FormatInt 5 = ''5''"
    by code_simp
  have n: "(3 - 4 - 1 :: int64) = - 2"
    by simp
  have l: "List ?env (demo_storage ''sqlite'') (TypedList empty_list_fields) paged_options =
      Returned (TypedList paged_result, None)"
    unfolding List_listed [OF q f]
    by (simp add: List_materialize_def ListAccessor_def Items_def set_list_meta_def d
         paged_options_def demo_options_def ConvertTo_def GetEvents_def Let_def demo_env_def
         empty_list_fields_def paged_result_def)
  have a: "ListAccessor (TypedList empty_list_fields) = Inr empty_list_fields"
      "ListAccessor (TypedList paged_result) = Inr paged_result"
    by (simp_all add: ListAccessor_def)
  have o: "WithContinue paged_options = Some True" "Limit paged_options = 1"
     "Items (BytesList [''pod-1'']) = [Bytes_Object ''pod-1'']"
    by (simp_all add: paged_options_def Items_def)
  from List_sets_continue_and_remaining [of ?env "demo_storage ''sqlite''" paged_options 4 "Some 3"
      ?q "BytesList []" "BytesList [''pod-1'']" "TypedList empty_list_fields" empty_list_fields
      "TypedList paged_result" None]
  have "list_Continue paged_result = FormatInt (4 + 1) \<and>
        list_RemainingItemCount paged_result = Some (3 - 4 - 1)"
    by (simp add: q f l a o)
  then show ?thesis using l d by simp
qed

text \<open>
  C9, as the claim states it, fails: with a backend other than SQLite, MySQL or
  PostgreSQL a metadata-projecting \<^verbatim>\<open>List\<close> does not return an error to its caller;
  it panics.
\<close>

theorem List_unsupported_backend_panics_counterexample:
  "List (demo_env [demo_row] 0 None) (demo_storage ''oracle'') (TypedList empty_list_fields)
        (demo_options\<lparr>OnlyMetadata := True\<rparr>) =
     Panicked ''storage: only support sqlite3, mysql or postgres'' \<and>
   \<not> returns_error (List (demo_env [demo_row] 0 None) (demo_storage ''oracle'')
        (TypedList empty_list_fields) (demo_options\<lparr>OnlyMetadata := True\<rparr>))"
  by (simp add: returns_error_def List_def genListObjectsQuery_def demo_env_def demo_options_def demo_storage_def
      applyListOptionsToResourceQuery_def applyOwnerToResourceQuery_def Let_def From_def
      ResourceMetadataList_Select_def gorm_Where_def gorm_Model_Resource_def demo_db_def
      unsupported_dialector_def)

text \<open>
  C9, amended. A metadata-projecting \<^verbatim>\<open>List\<close> selects \<open>object->>'$.metadata'\<close>
  when the dialector is \<open>sqlite\<close>, \<open>sqlite3\<close> or \<open>mysql\<close> and \<open>object->>'metadata'\<close>
  when it is \<open>postgres\<close> (with the events column added when \<open>InjectEvents\<close> is set), and
  goes on with the rows found or the database's error; for any other dialector the call
  panics with the message \<open>storage: only support sqlite3, mysql or postgres\<close> and returns
  nothing.
\<close>

theorem metadata_List_select_by_dialect:
  "OnlyMetadata opts \<and> genListObjectsQuery env s opts = Inr (offset, amount, query, result) \<longrightarrow>
   (Dialector_Name query = ''sqlite'' \<or> Dialector_Name query = ''sqlite3'' \<or> Dialector_Name query = ''mysql''
      \<longrightarrow> List env s listObject opts =
            (case db_Find env (gorm_Select
                     [if InjectEvents opts
                      then ''`group`, version, resource, kind, object->>'$.metadata' as metadata, events''
                      else ''`group`, version, resource, kind, object->>'$.metadata' as metadata''] query) of
               Inl err \<Rightarrow> Returned (listObject,
                            Some (InterpretDBError env (GroupResource_String (groupResource s)) err))
             | Inr rows \<Rightarrow> List_materialize env listObject opts offset amount
                            (map (\<lambda>row. ResourceMetadata_Object (scan_ResourceMetadata row)) rows))) \<and>
   (Dialector_Name query = ''postgres''
      \<longrightarrow> List env s listObject opts =
            (case db_Find env (gorm_Select
                     [if InjectEvents opts
                      then ''\"group\", version, resource, kind, object->>'metadata' as metadata, events''
                      else ''\"group\", version, resource, kind, object->>'metadata' as metadata''] query) of
               Inl err \<Rightarrow> Returned (listObject,
                            Some (InterpretDBError env (GroupResource_String (groupResource s)) err))
             | Inr rows \<Rightarrow> List_materialize env listObject opts offset amount
                            (map (\<lambda>row. ResourceMetadata_Object (scan_ResourceMetadata row)) rows))) \<and>
   (Dialector_Name query \<noteq> ''sqlite'' \<and> Dialector_Name query \<noteq> ''sqlite3'' \<and>
    Dialector_Name query \<noteq> ''mysql'' \<and> Dialector_Name query \<noteq> ''postgres''
      \<longrightarrow> List env s listObject opts = Panicked ''storage: only support sqlite3, mysql or postgres'')"
proof (intro impI)
  assume h: "OnlyMetadata opts \<and> genListObjectsQuery env s opts = Inr (offset, amount, query, result)"
  then have g: "genListObjectsQuery env s opts = Inr (offset, amount, query, result)" by simp
  have r: "result = (if InjectEvents opts then ResourceMetadataWithEventsList [] else ResourceMetadataList [])"
    using h genListObjectsQuery_metadata by blast
  have l: "List env s listObject opts =
      (case From env result query of
             Panicked msg \<Rightarrow> Panicked msg
           | Returned (Inl err) \<Rightarrow>
               Returned (listObject, Some (InterpretDBError env (GroupResource_String (groupResource s)) err))
           | Returned (Inr result') \<Rightarrow>
               List_materialize env listObject opts offset amount (Items result'))"
    by (simp add: List_def g)
  show "(Dialector_Name query = ''sqlite'' \<or> Dialector_Name query = ''sqlite3'' \<or> Dialector_Name query = ''mysql''
      \<longrightarrow> List env s listObject opts =
            (case db_Find env (gorm_Select
                     [if InjectEvents opts
                      then ''`group`, version, resource, kind, object->>'$.metadata' as metadata, events''
                      else ''`group`, version, resource, kind, object->>'$.metadata' as metadata''] query) of
               Inl err \<Rightarrow> Returned (listObject,
                            Some (InterpretDBError env (GroupResource_String (groupResource s)) err))
             | Inr rows \<Rightarrow> List_materialize env listObject opts offset amount
                            (map (\<lambda>row. ResourceMetadata_Object (scan_ResourceMetadata row)) rows))) \<and>
   (Dialector_Name query = ''postgres''
      \<longrightarrow> List env s listObject opts =
            (case db_Find env (gorm_Select
                     [if InjectEvents opts
                      then ''\"group\", version, resource, kind, object->>'metadata' as metadata, events''
                      else ''\"group\", version, resource, kind, object->>'metadata' as metadata''] query) of
               Inl err \<Rightarrow> Returned (listObject,
                            Some (InterpretDBError env (GroupResource_String (groupResource s)) err))
             | Inr rows \<Rightarrow> List_materialize env listObject opts offset amount
                            (map (\<lambda>row. ResourceMetadata_Object (scan_ResourceMetadata row)) rows))) \<and>
   (Dialector_Name query \<noteq> ''sqlite'' \<and> Dialector_Name query \<noteq> ''sqlite3'' \<and>
    Dialector_Name query \<noteq> ''mysql'' \<and> Dialector_Name query \<noteq> ''postgres''
      \<longrightarrow> List env s listObject opts = Panicked ''storage: only support sqlite3, mysql or postgres'')"
    unfolding l r
    by (cases "InjectEvents opts")
       (auto simp: From_def ResourceMetadataWithEventsList_Select_def ResourceMetadataList_Select_def
          unsupported_dialector_def Items_def comp_def split: sum.splits)
qed

theorem metadata_List_select_by_dialect_witness:
  "List echo_env (demo_storage ''postgres'') (TypedList empty_list_fields)
       (demo_options\<lparr>OnlyMetadata := True\<rparr>) =
     Returned (TypedList empty_list_fields,
       Some (ErrorString ''\"group\", version, resource, kind, object->>'metadata' as metadata'')) \<and>
   List echo_env (demo_storage ''mysql'') (TypedList empty_list_fields)
       (demo_options\<lparr>OnlyMetadata := True\<rparr>) =
     Returned (TypedList empty_list_fields,
       Some (ErrorString ''`group`, version, resource, kind, object->>'$.metadata' as metadata'')) \<and>
   List echo_env (demo_storage ''oracle'') (TypedList empty_list_fields)
       (demo_options\<lparr>OnlyMetadata := True\<rparr>) =
     Panicked ''storage: only support sqlite3, mysql or postgres''"
proof -
  let ?q = "\<lambda>dialect. gorm_Where (WhereMap (gvrKeyMap (demo_storage dialect)))
               (gorm_Model_Resource (demo_db dialect))"
  have d: "Dialector_Name (?q dialect) = dialect" for dialect
    by (simp add: gorm_Where_def gorm_Model_Resource_def demo_db_def)
  have o: "OnlyMetadata (demo_options\<lparr>OnlyMetadata := True\<rparr>)"
     "\<not> InjectEvents (demo_options\<lparr>OnlyMetadata := True\<rparr>)"
    by (simp_all add: demo_options_def)
  have f: "db_Find echo_env q = Inl (ErrorString (concat (Statement_Selects q)))"
     "InterpretDBError echo_env gr e = e" for q gr e
    by (simp_all add: echo_env_def demo_env_def)
  from metadata_List_select_by_dialect [of "demo_options\<lparr>OnlyMetadata := True\<rparr>" echo_env
      "demo_storage ''postgres''" 0 None "?q ''postgres''" "ResourceMetadataList []"
      "TypedList empty_list_fields"]
    metadata_List_select_by_dialect [of "demo_options\<lparr>OnlyMetadata := True\<rparr>" echo_env
      "demo_storage ''mysql''" 0 None "?q ''mysql''" "ResourceMetadataList []"
      "TypedList empty_list_fields"]
    metadata_List_select_by_dialect [of "demo_options\<lparr>OnlyMetadata := True\<rparr>" echo_env
      "demo_storage ''oracle''" 0 None "?q ''oracle''" "ResourceMetadataList []"
      "TypedList empty_list_fields"]
  show ?thesis
    by (simp add: echo_gen d o f gorm_Select_def)
qed

text \<open>
  C10. When the list object is an \<^verbatim>\<open>*unstructured.UnstructuredList\<close>, every item
  \<^verbatim>\<open>List\<close> puts into it is the conversion of one of the listed objects, with at most
  its apiVersion and kind filled in: its metadata, annotations included, is that of the
  converted object, whatever \<open>InjectEvents\<close> says and whatever events the rows carry.
  With no object listed the items are left as they were.
\<close>

theorem unstructured_List_never_injects_events:
  "genListObjectsQuery env s opts = Inr (offset, amount, query, result) \<and>
   From env result query = Returned (Inr page) \<and>
   List env s (UnstructuredList f0) opts = Returned (listObject', err)
   \<longrightarrow>
   (\<exists>f'. listObject' = UnstructuredList f' \<and>
      (Items page = [] \<longrightarrow> list_Items f' = list_Items f0) \<and>
      (Items page \<noteq> [] \<longrightarrow>
         (\<forall>item\<in>set (list_Items f').
            \<exists>object\<in>set (Items page). \<exists>u.
              ConvertTo env object IntoUnstructured = Inr (Unstructured u) \<and>
              item = Unstructured (complete_unstructured (list_APIVersion f0) object u) \<and>
              obj_Meta (complete_unstructured (list_APIVersion f0) object u) = obj_Meta u)))"
proof (intro impI)
  assume h: "genListObjectsQuery env s opts = Inr (offset, amount, query, result) \<and>
   From env result query = Returned (Inr page) \<and>
   List env s (UnstructuredList f0) opts = Returned (listObject', err)"
  let ?f = "set_list_meta opts offset amount (length (Items page)) f0"
  from h have m: "List_materialize env (UnstructuredList f0) opts offset amount (Items page) =
      Returned (listObject', err)"
    using List_listed [of env s opts offset amount query result page "UnstructuredList f0"] by simp
  show "\<exists>f'. listObject' = UnstructuredList f' \<and>
      (Items page = [] \<longrightarrow> list_Items f' = list_Items f0) \<and>
      (Items page \<noteq> [] \<longrightarrow>
         (\<forall>item\<in>set (list_Items f').
            \<exists>object\<in>set (Items page). \<exists>u.
              ConvertTo env object IntoUnstructured = Inr (Unstructured u) \<and>
              item = Unstructured (complete_unstructured (list_APIVersion f0) object u) \<and>
              obj_Meta (complete_unstructured (list_APIVersion f0) object u) = obj_Meta u))"
  proof (cases "Items page = []")
    case True
    with m have "listObject' = UnstructuredList ?f"
      by (simp add: List_materialize_def ListAccessor_def with_fields_def Let_def)
    with True show ?thesis by (simp add: set_list_meta_keeps)
  next
    case False
    obtain items e where u: "unstructured_items env (list_APIVersion f0) (Items page) [] = (items, e)"
      by (cases "unstructured_items env (list_APIVersion f0) (Items page) []") auto
    with m False have lo: "listObject' = UnstructuredList (?f\<lparr>list_Items := items\<rparr>)"
      by (simp add: List_materialize_def ListAccessor_def Let_def set_list_meta_keeps)
    have "\<forall>item\<in>set items.
            \<exists>object\<in>set (Items page). \<exists>u.
              ConvertTo env object IntoUnstructured = Inr (Unstructured u) \<and>
              item = Unstructured (complete_unstructured (list_APIVersion f0) object u) \<and>
              obj_Meta (complete_unstructured (list_APIVersion f0) object u) = obj_Meta u"
      using unstructured_items_origin [OF u] by (fastforce simp: complete_unstructured_meta)
    with lo False show ?thesis by simp
  qed
qed

theorem unstructured_List_never_injects_events_witness:
  "GetEvents (demo_env [demo_row] 0 None) (BytesWithEvents_Object ''pod-1'' ''started'') =
     Some [demo_event ''started''] \<and>
   (\<exists>f'. UnstructuredList (empty_list_fields\<lparr>list_Items :=
        [Unstructured (empty_api_object\<lparr>obj_APIVersion := ''v1'', obj_Meta := named_meta ''pod-1''\<rparr>)]\<rparr>)
        = UnstructuredList f' \<and>
      (\<exists>item. list_Items f' = [item] \<and>
         (\<exists>u. ConvertTo (demo_env [demo_row] 0 None) (BytesWithEvents_Object ''pod-1'' ''started'')
                IntoUnstructured = Inr (Unstructured u) \<and>
              item = Unstructured (complete_unstructured ''v1'' (BytesWithEvents_Object ''pod-1'' ''started'') u) \<and>
              meta_Annotations (obj_Meta u) = None)))"
proof -
  have g: "GetEvents (demo_env [demo_row] 0 None) (BytesWithEvents_Object ''pod-1'' ''started'') =
     Some [demo_event ''started'']"
    by (simp add: GetEvents_def EventsBytes_Decode_def demo_env_def)
  have i: "Items (BytesWithEventsList [(''pod-1'', ''started'')]) = [BytesWithEvents_Object ''pod-1'' ''started'']"
    by (simp add: Items_def)
  have c: "ConvertTo (demo_env [demo_row] 0 None) (BytesWithEvents_Object ''pod-1'' ''started'')
                IntoUnstructured = Inr (Unstructured (empty_api_object\<lparr>obj_Meta := named_meta ''pod-1''\<rparr>))"
    by (simp add: ConvertTo_def demo_env_def)
  have a: "meta_Annotations (named_meta ''pod-1'') = None" "list_APIVersion empty_list_fields = ''v1''"
    by (simp_all add: named_meta_def empty_ObjectMeta_def empty_list_fields_def)
  from unstructured_List_never_injects_events [of "demo_env [demo_row] 0 None"
      "demo_storage ''postgres''" "demo_options\<lparr>InjectEvents := True\<rparr>" 0 None
      "gorm_Where (WhereMap (gvrKeyMap (demo_storage ''postgres''))) (gorm_Model_Resource (demo_db ''postgres''))"
      "BytesWithEventsList []" "BytesWithEventsList [(''pod-1'', ''started'')]" empty_list_fields
      "UnstructuredList (empty_list_fields\<lparr>list_Items :=
        [Unstructured (empty_api_object\<lparr>obj_APIVersion := ''v1'', obj_Meta := named_meta ''pod-1''\<rparr>)]\<rparr>)"
      None]
  show ?thesis
    using g by (simp add: demo_gen_events demo_From_events demo_List_unstructured i c a)
qed

subsection \<open>Writing rows\<close>

text \<open>
  C2, as the claim states it, fails: for an object without a deletion timestamp
  \<^verbatim>\<open>Update\<close> does not write \<open>deleted_at\<close>. A stored row deleted at \<open>45\<close> keeps that
  value when it is updated from an object whose deletion timestamp is absent.
\<close>

theorem Update_keeps_deleted_at_counterexample:
  "meta_DeletionTimestamp (obj_Meta demo_pod) = None \<and>
   res_DeletedAt stored_pod = Some 45 \<and>
   Update (demo_env [] 0 None) (demo_storage ''sqlite'') None 60 [stored_pod] ''c1'' (Structured demo_pod) =
     ([stored_pod\<lparr>res_OwnerUID := '''', res_UID := ''u2'', res_ResourceVersion := ''8'',
                  res_Object := ''pod-1-v8'', res_CreatedAt := 50, res_SyncedAt := 60\<rparr>], None) \<and>
   res_DeletedAt (stored_pod\<lparr>res_OwnerUID := '''', res_UID := ''u2'', res_ResourceVersion := ''8'',
                  res_Object := ''pod-1-v8'', res_CreatedAt := 50, res_SyncedAt := 60\<rparr>) = Some 45"
  by (simp add: Update_def gorm_Updates_def matches_resourceKeyMap fold_updatedResource
      demo_pod_def stored_pod_def demo_env_def demo_storage_def meta_Accessor_def
      empty_ObjectMeta_def controller_UID_def)

text \<open>
  C2, amended. \<^verbatim>\<open>Update\<close>, when the object has metadata, the codec encodes it and
  the statement runs, overwrites in every row with the object's cluster, group, version,
  resource, namespace and name the columns \<open>owner_uid\<close>, \<open>uid\<close>, \<open>resource_version\<close>,
  \<open>object\<close> and \<open>created_at\<close> with the values derived from the object (and
  \<open>synced_at\<close> with the clock); \<open>deleted_at\<close> is overwritten only when the object has
  a deletion timestamp and keeps its stored value otherwise. Every other row is left
  as it is.
\<close>

theorem Update_overwrites_columns:
  "meta_Accessor obj = Inr metaobj \<and> codec_Encode env obj = Inr buffer \<longrightarrow>
   fst (Update env s None now table cluster obj) =
     map (\<lambda>row.
            if res_Cluster row = cluster \<and> res_Group row = gvr_Group (config_StorageResource s) \<and>
               res_Version row = gvr_Version (config_StorageResource s) \<and>
               res_Resource row = gvr_Resource (config_StorageResource s) \<and>
               res_Namespace row = meta_Namespace metaobj \<and> res_Name row = meta_Name metaobj
            then row\<lparr>res_OwnerUID := controller_UID metaobj, res_UID := meta_UID metaobj,
                     res_ResourceVersion := meta_ResourceVersion metaobj, res_Object := buffer,
                     res_CreatedAt := meta_CreationTimestamp metaobj,
                     res_DeletedAt := (case meta_DeletionTimestamp metaobj of
                                         None \<Rightarrow> res_DeletedAt row
                                       | Some deletedAt \<Rightarrow> Some deletedAt),
                     res_SyncedAt := now\<rparr>
            else row) table"
  by (simp add: Update_def gorm_Updates_def matches_resourceKeyMap fold_updatedResource)

theorem Update_overwrites_columns_witness:
  "fst (Update (demo_env [] 0 None) (demo_storage ''sqlite'') None 60 [stored_pod] ''c1''
          (Structured (demo_pod\<lparr>obj_Meta := (obj_Meta demo_pod)\<lparr>meta_DeletionTimestamp := Some 55\<rparr>\<rparr>))) =
     [stored_pod\<lparr>res_OwnerUID := '''', res_UID := ''u2'', res_ResourceVersion := ''8'',
                 res_Object := ''pod-1-v8'', res_CreatedAt := 50, res_DeletedAt := Some 55,
                 res_SyncedAt := 60\<rparr>]"
  using Update_overwrites_columns [of
      "Structured (demo_pod\<lparr>obj_Meta := (obj_Meta demo_pod)\<lparr>meta_DeletionTimestamp := Some 55\<rparr>\<rparr>)"
      "(obj_Meta demo_pod)\<lparr>meta_DeletionTimestamp := Some 55\<rparr>"
      "demo_env [] 0 None" "''pod-1-v8''" "demo_storage ''sqlite''" 60 "[stored_pod]" "''c1''"]
  by (simp add: demo_pod_def stored_pod_def demo_env_def demo_storage_def meta_Accessor_def
      empty_ObjectMeta_def controller_UID_def)

text \<open>
  C6. With a number of cluster names other than one, the owner options have no effect
  on the query: \<^verbatim>\<open>applyOwnerToResourceQuery\<close> hands back the query it was given, which
  is also what it hands back when the owner options are absent.
\<close>

theorem applyOwnerToResourceQuery_ignores_owner:
  "length (ClusterNames opts) \<noteq> 1 \<longrightarrow>
     applyOwnerToResourceQuery env d query opts = Inr query \<and>
     applyOwnerToResourceQuery env d query opts =
       applyOwnerToResourceQuery env d query
         (opts\<lparr>OwnerUID := '''', OwnerName := '''', OwnerGroupResource := ('''', ''''),
               OwnerSeniority := 0\<rparr>)"
  by (simp add: applyOwnerToResourceQuery_def)

theorem applyOwnerToResourceQuery_ignores_owner_witness:
  "applyOwnerToResourceQuery (demo_env [] 0 None) (demo_db ''sqlite'') (demo_db ''sqlite'')
      (demo_options\<lparr>ClusterNames := [''c1'', ''c2''], OwnerUID := ''u1'', OwnerSeniority := 2\<rparr>) =
     Inr (demo_db ''sqlite'') \<and>
   applyOwnerToResourceQuery (demo_env [] 0 None) (demo_db ''sqlite'') (demo_db ''sqlite'')
      (demo_options\<lparr>ClusterNames := [], OwnerName := ''web'', OwnerGroupResource := (''apps'', ''deployments'')\<rparr>) =
     Inr (demo_db ''sqlite'')"
  using applyOwnerToResourceQuery_ignores_owner [of
      "demo_options\<lparr>ClusterNames := [''c1'', ''c2''], OwnerUID := ''u1'', OwnerSeniority := 2\<rparr>"
      "demo_env [] 0 None" "demo_db ''sqlite''" "demo_db ''sqlite''"]
    applyOwnerToResourceQuery_ignores_owner [of
      "demo_options\<lparr>ClusterNames := [], OwnerName := ''web'', OwnerGroupResource := (''apps'', ''deployments'')\<rparr>"
      "demo_env [] 0 None" "demo_db ''sqlite''" "demo_db ''sqlite''"]
  by (simp add: demo_options_def)

lemma assign_column_keeps_events:
  "res_Events (assign_column a row) = res_Events row \<and>
   res_EventResourceVersions (assign_column a row) = res_EventResourceVersions row"
  by (cases a) (simp add: assign_column_def split: column_value.splits)

lemma fold_assign_column_keeps_events:
  "res_Events (fold assign_column columns row) = res_Events row \<and>
   res_EventResourceVersions (fold assign_column columns row) = res_EventResourceVersions row"
  by (induction columns arbitrary: row) (simp_all add: assign_column_keeps_events)

lemma Update_keeps_events:
  "map res_Events (fst (Update env s db_err now table cluster obj)) = map res_Events table \<and>
   map res_EventResourceVersions (fst (Update env s db_err now table cluster obj)) =
     map res_EventResourceVersions table"
  by (simp add: Update_def gorm_Updates_def fold_assign_column_keeps_events comp_def
      split: sum.splits option.splits)

text \<open>
  C8, as the claim states it, fails: a map that was made and holds no entry is empty
  and is not stored as NULL. \<^verbatim>\<open>JSONMap.GormValue\<close> tests \<^verbatim>\<open>m == nil\<close> only and hands
  every other map to the library, which binds the JSON text of the map: \<open>{}\<close>.
\<close>

theorem made_empty_JSONMap_not_NULL_counterexample:
  "JSONMap_GormValue (demo_env [] 0 None) (Some []) = gorm_Expr ''?'' [''{}''] \<and>
   JSONMap_GormValue (demo_env [] 0 None) (Some []) \<noteq> gorm_Expr ''NULL'' []"
  by (simp add: JSONMap_GormValue_def demo_env_def demo_JSONMap_GormValue_def gorm_Expr_def)

text \<open>
  C8, amended. A nil \<open>events\<close> or \<open>event_resource_versions\<close> map is stored as the SQL
  expression \<open>NULL\<close> with no bound value, never as the bound string \<open>null\<close>; every
  other map, the made-but-empty one included, is stored as whatever the library's
  \<^verbatim>\<open>GormValue\<close> yields for it. Of the writes of a row: every row \<^verbatim>\<open>Create\<close> writes
  holds nil in both maps, so both columns are inserted as \<open>NULL\<close>; \<^verbatim>\<open>Update\<close> leaves
  both columns of every row as they were; \<^verbatim>\<open>RecordEvent\<close> assigns to both columns the
  expressions \<^verbatim>\<open>JSONUpdate\<close> builds for one key each, not a map value.
\<close>

theorem nil_JSONMap_stored_as_NULL:
  "JSONMap_GormValue env None = gorm_Expr ''NULL'' [] \<and>
   JSONMap_GormValue env None \<noteq> gorm_Expr ''?'' [''null''] \<and>
   JSONMap_GormValue env (Some kv) = datatypes_JSONMap_GormValue env (Some kv) \<and>
   (Create_resource env s cluster obj = Inr row \<longrightarrow>
      res_Events row = None \<and> res_EventResourceVersions row = None \<and>
      insert_events_values env row = (gorm_Expr ''NULL'' [], gorm_Expr ''NULL'' [])) \<and>
   map res_Events (fst (Update env s db_err now table cluster obj)) = map res_Events table \<and>
   map res_EventResourceVersions (fst (Update env s db_err now table cluster obj)) =
     map res_EventResourceVersions table \<and>
   (RecordEvent_statement ev cluster event = Inr (key, columns) \<longrightarrow>
      (\<exists>buffer. event_codec_Encode ev event = Inr buffer \<and>
         columns =
           [(''events'', JSONUpdate ev ''events'' (event_UID event) buffer),
            (''event_resource_versions'',
             JSONUpdate ev ''event_resource_versions'' (MetaNamespaceKeyFunc event)
               (event_ResourceVersion event))]))"
proof (intro conjI impI)
  show "JSONMap_GormValue env None = gorm_Expr ''NULL'' []"
    by (simp add: JSONMap_GormValue_def)
  show "JSONMap_GormValue env None \<noteq> gorm_Expr ''?'' [''null'']"
    by (simp add: JSONMap_GormValue_def gorm_Expr_def)
  show "JSONMap_GormValue env (Some kv) = datatypes_JSONMap_GormValue env (Some kv)"
    by (simp add: JSONMap_GormValue_def)
next
  assume c: "Create_resource env s cluster obj = Inr row"
  then show e: "res_Events row = None"
    by (auto simp: Create_resource_def Let_def split: if_splits sum.splits)
  from c show v: "res_EventResourceVersions row = None"
    by (auto simp: Create_resource_def Let_def split: if_splits sum.splits)
  from e v show "insert_events_values env row = (gorm_Expr ''NULL'' [], gorm_Expr ''NULL'' [])"
    by (simp add: insert_events_values_def JSONMap_GormValue_def)
next
  show "map res_Events (fst (Update env s db_err now table cluster obj)) = map res_Events table"
    using Update_keeps_events by blast
  show "map res_EventResourceVersions (fst (Update env s db_err now table cluster obj)) =
     map res_EventResourceVersions table"
    using Update_keeps_events by blast
next
  assume "RecordEvent_statement ev cluster event = Inr (key, columns)"
  then show "\<exists>buffer. event_codec_Encode ev event = Inr buffer \<and>
         columns =
           [(''events'', JSONUpdate ev ''events'' (event_UID event) buffer),
            (''event_resource_versions'',
             JSONUpdate ev ''event_resource_versions'' (MetaNamespaceKeyFunc event)
               (event_ResourceVersion event))]"
    by (auto simp: RecordEvent_statement_def split: if_splits sum.splits)
qed

theorem nil_JSONMap_stored_as_NULL_witness:
  "insert_events_values (demo_env [] 0 None)
     (stored_pod\<lparr>res_ID := 0, res_OwnerUID := '''', res_UID := ''u2'', res_ResourceVersion := ''8'',
                  res_Object := ''pod-1-v8'', res_CreatedAt := 50, res_SyncedAt := 0,
                  res_DeletedAt := None\<rparr>) =
     (\<lparr>expr_SQL = ''NULL'', expr_Vars = []\<rparr>, \<lparr>expr_SQL = ''NULL'', expr_Vars = []\<rparr>) \<and>
   JSONMap_GormValue (demo_env [] 0 None) (Some [(''uid-1'', ''1'')]) =
     \<lparr>expr_SQL = ''?'', expr_Vars = [''{\"uid-1\":1}'']\<rparr> \<and>
   map res_Events (fst (Update (demo_env [] 0 None) (demo_storage ''mysql'') None 60
       [stored_pod] ''c1'' (Structured demo_pod))) = [None] \<and>
   snd (projr (RecordEvent_statement demo_event_env ''c1'' (demo_event ''started''))) =
     [(''events'', \<lparr>expr_SQL = ''JSON_SET(?, ?, ?)'', expr_Vars = [''events'', ''uid-1'', ''started'']\<rparr>),
      (''event_resource_versions'',
       \<lparr>expr_SQL = ''JSON_SET(?, ?, ?)'', expr_Vars = [''event_resource_versions'', ''default/ev'', ''1'']\<rparr>)]"
proof -
  let ?row = "stored_pod\<lparr>res_ID := 0, res_OwnerUID := '''', res_UID := ''u2'', res_ResourceVersion := ''8'',
                  res_Object := ''pod-1-v8'', res_CreatedAt := 50, res_SyncedAt := 0,
                  res_DeletedAt := None\<rparr>"
  let ?cols = "[(''events'', JSONUpdate demo_event_env ''events'' ''uid-1'' ''started''),
      (''event_resource_versions'',
       JSONUpdate demo_event_env ''event_resource_versions'' ''default/ev'' ''1'')]"
  have c: "Create_resource (demo_env [] 0 None) (demo_storage ''mysql'') ''c1'' (Structured demo_pod) =
     Inr ?row"
    by (simp add: Create_resource_def demo_env_def demo_storage_def demo_pod_def stored_pod_def
        meta_Accessor_def GetObjectKind_Kind_def controller_UID_def empty_ObjectMeta_def)
  have r: "RecordEvent_statement demo_event_env ''c1'' (demo_event ''started'') =
     Inr ([(''cluster'', ''c1''), (''uid'', ''u'')], ?cols)"
    by (simp add: RecordEvent_statement_def demo_event_env_def demo_event_def MetaNamespaceKeyFunc_def)
  have l: "datatypes_JSONMap_GormValue (demo_env [] 0 None) (Some [(''uid-1'', ''1'')]) =
     \<lparr>expr_SQL = ''?'', expr_Vars = [''{\"uid-1\":1}'']\<rparr>"
    by (simp add: demo_env_def demo_JSONMap_GormValue_def gorm_Expr_def)
  have j: "JSONUpdate demo_event_env column k v =
     \<lparr>expr_SQL = ''JSON_SET(?, ?, ?)'', expr_Vars = [column, k, v]\<rparr>" for column k v
    by (simp add: demo_event_env_def gorm_Expr_def)
  have t: "map res_Events [stored_pod] = [None]"
    by (simp add: stored_pod_def)
  note T = nil_JSONMap_stored_as_NULL [of "demo_env [] 0 None" "[(''uid-1'', ''1'')]"
      "demo_storage ''mysql''" "''c1''" "Structured demo_pod" ?row None 60 "[stored_pod]"
      demo_event_env "demo_event ''started''" "[(''cluster'', ''c1''), (''uid'', ''u'')]" ?cols]
  have i: "insert_events_values (demo_env [] 0 None) ?row =
      (\<lparr>expr_SQL = ''NULL'', expr_Vars = []\<rparr>, \<lparr>expr_SQL = ''NULL'', expr_Vars = []\<rparr>)"
    using T [THEN conjunct2, THEN conjunct2, THEN conjunct2, THEN conjunct1] c
    by (simp add: gorm_Expr_def)
  have g: "JSONMap_GormValue (demo_env [] 0 None) (Some [(''uid-1'', ''1'')]) =
     \<lparr>expr_SQL = ''?'', expr_Vars = [''{\"uid-1\":1}'']\<rparr>"
    using T [THEN conjunct2, THEN conjunct2, THEN conjunct1] l by simp
  have u: "map res_Events (fst (Update (demo_env [] 0 None) (demo_storage ''mysql'') None 60
       [stored_pod] ''c1'' (Structured demo_pod))) = [None]"
    using T [THEN conjunct2, THEN conjunct2, THEN conjunct2, THEN conjunct2, THEN conjunct1] t
    by simp
  have e: "snd (projr (RecordEvent_statement demo_event_env ''c1'' (demo_event ''started''))) = ?cols"
    by (simp add: r)
  show ?thesis
    unfolding i g u e by (simp add: j)
qed

end
